theory Spec2Isabelle
  imports Main "HOL-Library.Sublist"
begin

section \<open>Strings\<close>

text \<open>
  A JavaScript string is modelled as a \<^typ>\<open>string\<close>: a list of code units, here
  restricted to the 8-bit range. \<open>is_space\<close> is the class \<^verbatim>\<open>\s\<close> on that range (the
  white space and line terminator code points TAB, LF, VT, FF, CR, SP and NBSP), which is
  also what \<^verbatim>\<open>String.prototype.trim\<close> strips. \<open>is_word\<close> is \<^verbatim>\<open>\w\<close>, \<open>is_digit\<close> is
  \<^verbatim>\<open>\d\<close>, and \<open>is_line_terminator\<close> is what \<^verbatim>\<open>.\<close> excludes and what a multiline
  \<^verbatim>\<open>$\<close> looks for.
\<close>

definition is_space :: "char \<Rightarrow> bool" where
  "is_space c \<longleftrightarrow> (let n = (of_char c :: nat) in (9 \<le> n \<and> n \<le> 13) \<or> n = 32 \<or> n = 160)"

definition is_digit :: "char \<Rightarrow> bool" where
  "is_digit c \<longleftrightarrow> (let n = (of_char c :: nat) in 48 \<le> n \<and> n \<le> 57)"

definition is_word :: "char \<Rightarrow> bool" where
  "is_word c \<longleftrightarrow> (let n = (of_char c :: nat) in
     (97 \<le> n \<and> n \<le> 122) \<or> (65 \<le> n \<and> n \<le> 90) \<or> (48 \<le> n \<and> n \<le> 57) \<or> n = 95)"

definition is_line_terminator :: "char \<Rightarrow> bool" where
  "is_line_terminator c \<longleftrightarrow> (let n = (of_char c :: nat) in n = 10 \<or> n = 13)"

definition newline :: char where
  "newline = CHR 0x0A"

text \<open>\<^verbatim>\<open>s.includes(t)\<close> is \<^term>\<open>sublist t s\<close>, \<^verbatim>\<open>s.startsWith(t)\<close> is \<^term>\<open>prefix t s\<close>.\<close>

definition str_includes :: "string \<Rightarrow> string \<Rightarrow> bool" where
  "str_includes s t \<longleftrightarrow> sublist t s"

definition trim :: "string \<Rightarrow> string" where
  "trim s = rev (dropWhile is_space (rev (dropWhile is_space s)))"

text \<open>\<^verbatim>\<open>s.split('\n')\<close>: always at least one piece.\<close>

fun split_nl :: "string \<Rightarrow> string list" where
  "split_nl [] = [[]]"
| "split_nl (c # cs) =
     (if c = newline then [] # split_nl cs
      else (case split_nl cs of l # ls \<Rightarrow> (c # l) # ls | [] \<Rightarrow> [[c]]))"

text \<open>\<^verbatim>\<open>ls.join('\n')\<close>.\<close>

fun join_nl :: "string list \<Rightarrow> string" where
  "join_nl [] = []"
| "join_nl [l] = l"
| "join_nl (l # m # ls) = l @ newline # join_nl (m # ls)"

text \<open>\<^verbatim>\<open>'  '.repeat(n)\<close>.\<close>

definition indent :: "nat \<Rightarrow> string" where
  "indent n = concat (replicate n ''  '')"

section \<open>Regular expressions\<close>

text \<open>
  The source is written with regular-expression literals. They are embedded as values of
  the datatype \<open>rx\<close>, read by a backtracking matcher in continuation-passing style, which
  is how ECMAScript defines matching: a matcher takes the current state and a continuation
  for the rest of the pattern, alternatives are tried in order, a greedy quantifier tries
  the longer match first and a lazy one the shorter. Every quantifier of the source is over
  a single character class, so \<open>Rep\<close> takes a class.
\<close>

datatype cls =
    Ch char      \<comment> \<open>that character\<close>
  | Space        \<comment> \<open>\<^verbatim>\<open>\s\<close>\<close>
  | Word         \<comment> \<open>\<^verbatim>\<open>\w\<close>\<close>
  | Digit        \<comment> \<open>\<^verbatim>\<open>\d\<close>\<close>
  | Dot          \<comment> \<open>\<^verbatim>\<open>.\<close>\<close>
  | AnyCh        \<comment> \<open>\<^verbatim>\<open>[\s\S]\<close>\<close>
  | Not char     \<comment> \<open>\<^verbatim>\<open>[^c]\<close>\<close>

fun in_cls :: "cls \<Rightarrow> char \<Rightarrow> bool" where
  "in_cls (Ch d) c \<longleftrightarrow> c = d"
| "in_cls Space c \<longleftrightarrow> is_space c"
| "in_cls Word c \<longleftrightarrow> is_word c"
| "in_cls Digit c \<longleftrightarrow> is_digit c"
| "in_cls Dot c \<longleftrightarrow> \<not> is_line_terminator c"
| "in_cls AnyCh c \<longleftrightarrow> True"
| "in_cls (Not d) c \<longleftrightarrow> c \<noteq> d"

datatype rx =
    Str string          \<comment> \<open>a sequence of literal characters\<close>
  | Atom cls            \<comment> \<open>one character of a class\<close>
  | Rep cls nat bool    \<comment> \<open>\<open>Rep c n True\<close>: \<open>n\<close> or more, greedy; \<open>Rep c n False\<close>: lazy\<close>
  | Seq rx rx
  | Alt rx rx
  | Opt rx              \<comment> \<open>\<^verbatim>\<open>(...)?\<close>\<close>
  | Grp nat rx          \<comment> \<open>capturing group number \<open>i\<close>\<close>
  | Bos                 \<comment> \<open>\<^verbatim>\<open>^\<close> without the \<^verbatim>\<open>m\<close> flag\<close>
  | EolM                \<comment> \<open>\<^verbatim>\<open>$\<close> with the \<^verbatim>\<open>m\<close> flag\<close>
  | WordB               \<comment> \<open>\<^verbatim>\<open>\b\<close>\<close>

text \<open>
  A matcher state: the character before the current position (\<open>None\<close> at the start of
  the input), the rest of the input, and the captures made so far (latest first).
\<close>

type_synonym captures = "(nat \<times> string) list"
type_synonym mstate = "char option \<times> string \<times> captures"

fun lit :: "string \<Rightarrow> char option \<Rightarrow> string \<Rightarrow> (char option \<times> string) option" where
  "lit [] p s = Some (p, s)"
| "lit (d # ds) p [] = None"
| "lit (d # ds) p (c # cs) = (if c = d then lit ds (Some c) cs else None)"

fun rep_greedy :: "cls \<Rightarrow> nat \<Rightarrow> char option \<Rightarrow> string \<Rightarrow>
    (char option \<Rightarrow> string \<Rightarrow> 'a option) \<Rightarrow> 'a option" where
  "rep_greedy c n p [] k = (if n = 0 then k p [] else None)"
| "rep_greedy c n p (x # xs) k =
     (if in_cls c x then
        (case rep_greedy c (n - 1) (Some x) xs k of
           Some r \<Rightarrow> Some r
         | None \<Rightarrow> if n = 0 then k p (x # xs) else None)
      else if n = 0 then k p (x # xs) else None)"

fun rep_lazy :: "cls \<Rightarrow> nat \<Rightarrow> char option \<Rightarrow> string \<Rightarrow>
    (char option \<Rightarrow> string \<Rightarrow> 'a option) \<Rightarrow> 'a option" where
  "rep_lazy c n p [] k = (if n = 0 then k p [] else None)"
| "rep_lazy c n p (x # xs) k =
     (case (if n = 0 then k p (x # xs) else None) of
        Some r \<Rightarrow> Some r
      | None \<Rightarrow> if in_cls c x then rep_lazy c (n - 1) (Some x) xs k else None)"

definition at_word_boundary :: "char option \<Rightarrow> string \<Rightarrow> bool" where
  "at_word_boundary p s \<longleftrightarrow>
     (case p of None \<Rightarrow> False | Some c \<Rightarrow> is_word c) \<noteq>
     (case s of [] \<Rightarrow> False | c # cs \<Rightarrow> is_word c)"

definition at_line_end :: "string \<Rightarrow> bool" where
  "at_line_end s \<longleftrightarrow> (case s of [] \<Rightarrow> True | c # cs \<Rightarrow> is_line_terminator c)"

fun rx_m :: "rx \<Rightarrow> mstate \<Rightarrow> (mstate \<Rightarrow> 'a option) \<Rightarrow> 'a option" where
  "rx_m (Str w) (p, s, cs) k =
     (case lit w p s of None \<Rightarrow> None | Some (p', s') \<Rightarrow> k (p', s', cs))"
| "rx_m (Atom c) (p, s, cs) k =
     (case s of [] \<Rightarrow> None | x # xs \<Rightarrow> if in_cls c x then k (Some x, xs, cs) else None)"
| "rx_m (Rep c n g) (p, s, cs) k =
     (if g then rep_greedy c n p s (\<lambda>p' s'. k (p', s', cs))
      else rep_lazy c n p s (\<lambda>p' s'. k (p', s', cs)))"
| "rx_m (Seq a b) st k = rx_m a st (\<lambda>st'. rx_m b st' k)"
| "rx_m (Alt a b) st k = (case rx_m a st k of Some r \<Rightarrow> Some r | None \<Rightarrow> rx_m b st k)"
| "rx_m (Opt a) st k = (case rx_m a st k of Some r \<Rightarrow> Some r | None \<Rightarrow> k st)"
| "rx_m (Grp i a) (p, s, cs) k =
     rx_m a (p, s, cs)
       (\<lambda>(p', s', cs'). k (p', s', (i, take (length s - length s') s) # cs'))"
| "rx_m Bos (p, s, cs) k = (if p = None then k (p, s, cs) else None)"
| "rx_m EolM (p, s, cs) k = (if at_line_end s then k (p, s, cs) else None)"
| "rx_m WordB (p, s, cs) k = (if at_word_boundary p s then k (p, s, cs) else None)"

text \<open>
  One attempt at one position: the length of the match and its captures. \<open>pre\<close> is the
  input before the position, reversed.
\<close>

definition prev_char :: "string \<Rightarrow> char option" where
  "prev_char pre = (case pre of [] \<Rightarrow> None | c # cs \<Rightarrow> Some c)"

definition rx_exec :: "rx \<Rightarrow> string \<Rightarrow> string \<Rightarrow> (nat \<times> captures) option" where
  "rx_exec r pre s =
     rx_m r (prev_char pre, s, []) (\<lambda>(p', s', cs). Some (length s - length s', cs))"

fun seqs :: "rx list \<Rightarrow> rx" where
  "seqs [] = Str []"
| "seqs [r] = r"
| "seqs (r # q # rs) = Seq r (seqs (q # rs))"

text \<open>\<^verbatim>\<open>r.test(s)\<close> on a regular expression whose \<open>lastIndex\<close> is 0: is there a match
  at some position. (The objects with their \<open>lastIndex\<close> come further down, with the
  proof that the calls of the program scan from 0.)\<close>

fun test_from :: "rx \<Rightarrow> string \<Rightarrow> string \<Rightarrow> bool" where
  "test_from r pre [] = (rx_exec r pre [] \<noteq> None)"
| "test_from r pre (c # cs) = (rx_exec r pre (c # cs) \<noteq> None \<or> test_from r (c # pre) cs)"

definition rx_test :: "rx \<Rightarrow> string \<Rightarrow> bool" where
  "rx_test r s = test_from r [] s"

text \<open>\<^verbatim>\<open>s.match(r)\<close> for a regular expression without the \<^verbatim>\<open>g\<close> flag: the captures of
  the first match.\<close>

fun match_from :: "rx \<Rightarrow> string \<Rightarrow> string \<Rightarrow> captures option" where
  "match_from r pre [] = map_option snd (rx_exec r pre [])"
| "match_from r pre (c # cs) =
     (case rx_exec r pre (c # cs) of
        Some (n, caps) \<Rightarrow> Some caps
      | None \<Rightarrow> match_from r (c # pre) cs)"

definition rx_match :: "rx \<Rightarrow> string \<Rightarrow> captures option" where
  "rx_match r s = match_from r [] s"

text \<open>
  \<^verbatim>\<open>s.replace(r, f)\<close> for a regular expression with the \<^verbatim>\<open>g\<close> flag. The replacer \<open>f\<close>
  gets the matched text, the captures, the input before the match and the input after it.
  After an empty match the scan moves on by one character.
\<close>

type_synonym replacer = "string \<Rightarrow> captures \<Rightarrow> string \<Rightarrow> string \<Rightarrow> string"

function replace_from :: "rx \<Rightarrow> replacer \<Rightarrow> string \<Rightarrow> string \<Rightarrow> string" where
  "replace_from r f pre [] =
     (case rx_exec r pre [] of None \<Rightarrow> [] | Some (n, caps) \<Rightarrow> f [] caps (rev pre) [])"
| "replace_from r f pre (c # cs) =
     (case rx_exec r pre (c # cs) of
        None \<Rightarrow> c # replace_from r f (c # pre) cs
      | Some (n, caps) \<Rightarrow>
          if n = 0 then f [] caps (rev pre) (c # cs) @ c # replace_from r f (c # pre) cs
          else f (take n (c # cs)) caps (rev pre) (drop n (c # cs))
               @ replace_from r f (rev (take n (c # cs)) @ pre) (drop n (c # cs)))"
  by pat_completeness auto
termination
  by (relation "measure (\<lambda>(r, f, pre, s). length s)") auto

definition rx_replace_all :: "rx \<Rightarrow> replacer \<Rightarrow> string \<Rightarrow> string" where
  "rx_replace_all r f s = replace_from r f [] s"

subsection \<open>Replacement templates\<close>

text \<open>
  \<open>get_substitution\<close> is ECMAScript's GetSubstitution for a replacement string: \<^verbatim>\<open>$$\<close>,
  \<^verbatim>\<open>$&\<close>, the text before and after the match, and \<^verbatim>\<open>$n\<close> / \<^verbatim>\<open>$nn\<close> for the \<open>m\<close>
  capturing groups of the pattern (a group that did not take part gives the empty string;
  a number beyond \<open>m\<close> stays as it is written).
\<close>

definition digit_val :: "char \<Rightarrow> nat" where
  "digit_val c = of_char c - 48"

definition capture :: "captures \<Rightarrow> nat \<Rightarrow> string" where
  "capture caps i = (case map_of caps i of None \<Rightarrow> [] | Some w \<Rightarrow> w)"

fun get_substitution :: "nat \<Rightarrow> string \<Rightarrow> string \<Rightarrow> captures \<Rightarrow> string \<Rightarrow> string \<Rightarrow> string" where
  "get_substitution m [] matched caps pre post = []"
| "get_substitution m [c] matched caps pre post = [c]"
| "get_substitution m (c # d # t) matched caps pre post =
     (if c \<noteq> CHR ''$'' then c # get_substitution m (d # t) matched caps pre post
      else if d = CHR ''$'' then CHR ''$'' # get_substitution m t matched caps pre post
      else if d = CHR ''&'' then matched @ get_substitution m t matched caps pre post
      else if d = CHR 0x60 then pre @ get_substitution m t matched caps pre post
      else if d = CHR 0x27 then post @ get_substitution m t matched caps pre post
      else if is_digit d then
        (case t of
           e # u \<Rightarrow>
             if is_digit e \<and> 10 * digit_val d + digit_val e \<le> m
             then (if 1 \<le> 10 * digit_val d + digit_val e
                   then capture caps (10 * digit_val d + digit_val e)
                   else [CHR ''$'', d, e])
                  @ get_substitution m u matched caps pre post
             else (if 1 \<le> digit_val d \<and> digit_val d \<le> m
                   then capture caps (digit_val d)
                   else [CHR ''$'', d])
                  @ get_substitution m t matched caps pre post
         | [] \<Rightarrow>
             if 1 \<le> digit_val d \<and> digit_val d \<le> m then capture caps (digit_val d)
             else [CHR ''$'', d])
      else CHR ''$'' # get_substitution m (d # t) matched caps pre post)"

fun ngroups :: "rx \<Rightarrow> nat" where
  "ngroups (Seq a b) = ngroups a + ngroups b"
| "ngroups (Alt a b) = ngroups a + ngroups b"
| "ngroups (Opt a) = ngroups a"
| "ngroups (Grp i a) = Suc (ngroups a)"
| "ngroups r = 0"

text \<open>\<^verbatim>\<open>s.replace(r, template)\<close> with the \<^verbatim>\<open>g\<close> flag.\<close>

definition template :: "rx \<Rightarrow> string \<Rightarrow> replacer" where
  "template r t = (\<lambda>matched caps pre post. get_substitution (ngroups r) t matched caps pre post)"

definition replace_rx :: "rx \<Rightarrow> string \<Rightarrow> string \<Rightarrow> string" where
  "replace_rx r t s = rx_replace_all r (template r t) s"

text \<open>\<^verbatim>\<open>s.replace(t, u)\<close> for a string \<open>t\<close>: the first occurrence only; \<open>u\<close> is a
  replacement template with no captures.\<close>

fun replace_str_from :: "string \<Rightarrow> string \<Rightarrow> string \<Rightarrow> string \<Rightarrow> string" where
  "replace_str_from t u pre [] =
     (if t = [] then get_substitution 0 u t [] (rev pre) [] else [])"
| "replace_str_from t u pre (c # cs) =
     (if prefix t (c # cs)
      then get_substitution 0 u t [] (rev pre) (drop (length t) (c # cs))
           @ drop (length t) (c # cs)
      else c # replace_str_from t u (c # pre) cs)"

definition replace_str :: "string \<Rightarrow> string \<Rightarrow> string \<Rightarrow> string" where
  "replace_str t u s = replace_str_from t u [] s"

section \<open>Fix mode: \<^verbatim>\<open>fixLogicalErrors\<close>\<close>

abbreviation ws0 :: rx where "ws0 \<equiv> Rep Space 0 True"   \<comment> \<open>\<^verbatim>\<open>\s*\<close>\<close>
abbreviation ws1 :: rx where "ws1 \<equiv> Rep Space 1 True"   \<comment> \<open>\<^verbatim>\<open>\s+\<close>\<close>
abbreviation wd1 :: rx where "wd1 \<equiv> Rep Word 1 True"    \<comment> \<open>\<^verbatim>\<open>\w+\<close>\<close>

text \<open>\<^verbatim>\<open>/n\s*%\s*2\s*!=\s*0/g\<close>\<close>
definition rx_parity :: rx where
  "rx_parity = seqs [Str ''n'', ws0, Str ''%'', ws0, Str ''2'', ws0, Str ''!='', ws0, Str ''0'']"

text \<open>\<^verbatim>\<open>/n\s*%\s*2\s*!==\s*0/g\<close>\<close>
definition rx_parity_strict :: rx where
  "rx_parity_strict =
     seqs [Str ''n'', ws0, Str ''%'', ws0, Str ''2'', ws0, Str ''!=='', ws0, Str ''0'']"

text \<open>\<^verbatim>\<open>/for\s*\(\s*\w+\s*=\s*0;\s*\w+\s*<\s*(\w+)\.length\s*-\s*1/g\<close>\<close>
definition rx_off_by_one :: rx where
  "rx_off_by_one =
     seqs [Str ''for'', ws0, Str ''('', ws0, wd1, ws0, Str ''='', ws0, Str ''0;'', ws0, wd1, ws0,
           Str ''<'', ws0, Grp 1 wd1, Str ''.length'', ws0, Str ''-'', ws0, Str ''1'']"

text \<open>\<^verbatim>\<open>/\[\s*(\w+)\.length\s*\]/g\<close>\<close>
definition rx_bounds :: rx where
  "rx_bounds = seqs [Str ''['', ws0, Grp 1 wd1, Str ''.length'', ws0, Str '']'']"

text \<open>\<^verbatim>\<open>/&&\s*true/g\<close>\<close>
definition rx_and_true :: rx where
  "rx_and_true = seqs [Str ''&&'', ws0, Str ''true'']"

text \<open>\<^verbatim>\<open>/\|\|\s*false/g\<close>\<close>
definition rx_or_false :: rx where
  "rx_or_false = seqs [Str ''||'', ws0, Str ''false'']"

record fix_rule =
  pattern :: rx
  replacement :: string
  comment :: string

definition errorPatterns :: "fix_rule list" where
  "errorPatterns =
     [\<lparr>pattern = rx_parity, replacement = ''n % 2 == 0'',
       comment = ''Fixed: even numbers have remainder 0''\<rparr>,
      \<lparr>pattern = rx_parity_strict, replacement = ''n % 2 === 0'',
       comment = ''Fixed: even numbers have remainder 0''\<rparr>,
      \<lparr>pattern = rx_off_by_one, replacement = ''for (let i = 0; i < $1.length'',
       comment = ''Fixed: off-by-one error''\<rparr>,
      \<lparr>pattern = rx_bounds, replacement = ''[$1.length - 1]'',
       comment = ''Fixed: array index out of bounds''\<rparr>,
      \<lparr>pattern = rx_and_true, replacement = [],
       comment = ''Simplified: && true is redundant''\<rparr>,
      \<lparr>pattern = rx_or_false, replacement = [],
       comment = ''Simplified: || false is redundant''\<rparr>]"







text \<open>The body of the \<^verbatim>\<open>forEach\<close>: one rule applied to the current text.\<close>

definition apply_rule :: "string \<Rightarrow> fix_rule \<Rightarrow> string" where
  "apply_rule fixedCode rule =
     (if rx_test (pattern rule) fixedCode then
        (let fixed = replace_rx (pattern rule) (replacement rule) fixedCode in
         if \<not> str_includes fixed (comment rule)
         then replace_str (replacement rule)
                (replacement rule @ ''  // '' @ comment rule) fixed
         else fixed)
      else fixedCode)"

definition fixLogicalErrors :: "string \<Rightarrow> string \<Rightarrow> string" where
  "fixLogicalErrors code language = foldl apply_rule code errorPatterns"

section \<open>Convert mode\<close>

subsection \<open>Python to JavaScript\<close>

text \<open>
  \<^verbatim>\<open>'  '.repeat(n)\<close> throws a RangeError for a negative count; the counter
  \<^verbatim>\<open>indentLevel\<close> is decremented by the source, so it is an \<^typ>\<open>int\<close> here and the
  error is a branch of the model. The other errors are those of the test simulator: a
  TypeError for reading a property of \<^verbatim>\<open>undefined\<close> or \<^verbatim>\<open>null\<close> and for destructuring
  what is not iterable, and a SyntaxError for a regular expression made from a text
  that is not a pattern.
\<close>

datatype js_error = RangeError | TypeError string | SyntaxError string

definition repeat_indent :: "int \<Rightarrow> js_error + string" where
  "repeat_indent n = (if n < 0 then Inl RangeError else Inr (indent (nat n)))"

text \<open>\<^verbatim>\<open>/def\s+(\w+)\s*\((.*?)\):/g\<close>\<close>
definition rx_def :: rx where
  "rx_def = seqs [Str ''def'', ws1, Grp 1 wd1, ws0, Str ''('', Grp 2 (Rep Dot 0 False), Str ''):'']"

text \<open>\<^verbatim>\<open>/return\s+(.+)/g\<close>\<close>
definition rx_return :: rx where
  "rx_return = seqs [Str ''return'', ws1, Grp 1 (Rep Dot 1 True)]"

text \<open>\<^verbatim>\<open>/\bTrue\b/g\<close>, \<^verbatim>\<open>/\bFalse\b/g\<close>, \<^verbatim>\<open>/\bNone\b/g\<close>\<close>
definition rx_True :: rx where "rx_True = seqs [WordB, Str ''True'', WordB]"
definition rx_False :: rx where "rx_False = seqs [WordB, Str ''False'', WordB]"
definition rx_None :: rx where "rx_None = seqs [WordB, Str ''None'', WordB]"

text \<open>\<^verbatim>\<open>/elif/g\<close>\<close>
definition rx_elif :: rx where "rx_elif = Str ''elif''"

text \<open>\<^verbatim>\<open>/:\s*$/gm\<close>\<close>
definition rx_colon_eol :: rx where "rx_colon_eol = seqs [Str '':'', ws0, EolM]"

text \<open>\<^verbatim>\<open>/print\s*\((.*?)\)/g\<close>\<close>
definition rx_print :: rx where
  "rx_print = seqs [Str ''print'', ws0, Str ''('', Grp 1 (Rep Dot 0 False), Str '')'']"

text \<open>\<^verbatim>\<open>/f"([^"]*\{[^}]*\}[^"]*)"/g\<close>\<close>
definition rx_fstring :: rx where
  "rx_fstring =
     seqs [Str [CHR ''f'', CHR 0x22],
           Grp 1 (seqs [Rep (Not (CHR 0x22)) 0 True, Str ''{'', Rep (Not CHR ''}'') 0 True,
                        Str ''}'', Rep (Not (CHR 0x22)) 0 True]),
           Str [CHR 0x22]]"

text \<open>\<^verbatim>\<open>/\{(\w+)\}/g\<close>\<close>
definition rx_brace_var :: rx where
  "rx_brace_var = seqs [Str ''{'', Grp 1 wd1, Str ''}'']"

text \<open>The chain of \<^verbatim>\<open>replace\<close> calls that gives \<^verbatim>\<open>converted\<close>.\<close>

definition py_to_js_rewrite :: "string \<Rightarrow> string" where
  "py_to_js_rewrite code =
     (replace_rx rx_brace_var ''${$1}''
     (replace_rx rx_fstring [CHR 0x60, CHR ''$'', CHR ''1'', CHR 0x60]
     (replace_rx rx_print ''console.log($1)''
     (replace_rx rx_colon_eol '' {''
     (replace_rx rx_elif ''else if''
     (replace_rx rx_None ''null''
     (replace_rx rx_False ''false''
     (replace_rx rx_True ''true''
     (replace_rx rx_return ''  return $1;''
     (replace_rx rx_def ''function $1($2) {''
     (replace_rx rx_parity ''n % 2 === 0'' code)))))))))))"

text \<open>
  The first loop: \<open>(result, braceCount, indentLevel)\<close> over the lines. The three
  branches of the source push the same line; only the first changes the counters.
\<close>

fun format_lines :: "string list \<Rightarrow> string list \<times> nat \<times> int \<Rightarrow>
    js_error + (string list \<times> nat \<times> int)" where
  "format_lines [] st = Inr st"
| "format_lines (line # lines) (result, braceCount, indentLevel) =
     (let trimmed = trim line in
      if trimmed \<noteq> [] then
        (if str_includes line ''{'' then
           (case repeat_indent indentLevel of
              Inl e \<Rightarrow> Inl e
            | Inr ind \<Rightarrow>
                format_lines lines (result @ [ind @ trimmed], braceCount + 1, indentLevel + 1))
         else if prefix ''return'' trimmed \<or> prefix ''console.log'' trimmed then
           (case repeat_indent indentLevel of
              Inl e \<Rightarrow> Inl e
            | Inr ind \<Rightarrow> format_lines lines (result @ [ind @ trimmed], braceCount, indentLevel))
         else
           (case repeat_indent indentLevel of
              Inl e \<Rightarrow> Inl e
            | Inr ind \<Rightarrow> format_lines lines (result @ [ind @ trimmed], braceCount, indentLevel)))
      else format_lines lines (result, braceCount, indentLevel))"

text \<open>The second loop, \<^verbatim>\<open>for (let i = 0; i < braceCount; i++)\<close>: \<open>k\<close> is the number
  of rounds left.\<close>

fun close_braces :: "nat \<Rightarrow> string list \<times> int \<Rightarrow> js_error + (string list \<times> int)" where
  "close_braces 0 st = Inr st"
| "close_braces (Suc k) (result, indentLevel) =
     (case repeat_indent (indentLevel - 1) of
        Inl e \<Rightarrow> Inl e
      | Inr ind \<Rightarrow> close_braces k (result @ [ind @ ''}''], indentLevel - 1))"

definition convertPythonToJavaScript :: "string \<Rightarrow> js_error + string" where
  "convertPythonToJavaScript code =
     (case format_lines (split_nl (py_to_js_rewrite code)) ([], 0, 0) of
        Inl e \<Rightarrow> Inl e
      | Inr (result, braceCount, indentLevel) \<Rightarrow>
          (case close_braces braceCount (result, indentLevel) of
             Inl e \<Rightarrow> Inl e
           | Inr (result', indentLevel') \<Rightarrow> Inr (join_nl result')))"

subsection \<open>Python to TypeScript\<close>

text \<open>\<^verbatim>\<open>/function\s+(\w+)\s*\(([^)]*)\)/g\<close>\<close>
definition rx_function_sig :: rx where
  "rx_function_sig =
     seqs [Str ''function'', ws1, Grp 1 wd1, ws0, Str ''('', Grp 2 (Rep (Not CHR '')'') 0 True),
           Str '')'']"

text \<open>\<^verbatim>\<open>/(\w+)/g\<close>\<close>
definition rx_word :: rx where
  "rx_word = Grp 1 wd1"

text \<open>The replacer function of \<^verbatim>\<open>convertPythonToTypeScript\<close>.\<close>

definition py_ts_signature :: replacer where
  "py_ts_signature matched caps pre post =
     (let funcName = capture caps 1; params = capture caps 2 in
      if str_includes funcName ''even'' \<or> str_includes funcName ''odd'' then
        ''function '' @ funcName @ ''('' @ replace_rx rx_word ''$1: number'' params
          @ ''): boolean''
      else if str_includes funcName ''add'' \<or> str_includes funcName ''sum''
              \<or> str_includes funcName ''multiply'' then
        ''function '' @ funcName @ ''('' @ replace_rx rx_word ''$1: number'' params
          @ ''): number''
      else
        ''function '' @ funcName @ ''('' @ replace_rx rx_word ''$1: any'' params @ ''): any'')"

definition convertPythonToTypeScript :: "string \<Rightarrow> js_error + string" where
  "convertPythonToTypeScript code =
     (case convertPythonToJavaScript code of
        Inl e \<Rightarrow> Inl e
      | Inr jsCode \<Rightarrow> Inr (rx_replace_all rx_function_sig py_ts_signature jsCode))"

subsection \<open>Python to Java\<close>

definition py_java_signature :: replacer where
  "py_java_signature matched caps pre post =
     (let funcName = capture caps 1; params = capture caps 2 in
      if str_includes funcName ''even'' \<or> str_includes funcName ''odd'' then
        ''    public static boolean '' @ funcName @ ''('' @ replace_rx rx_word ''int $1'' params
          @ '') {''
      else if str_includes funcName ''add'' \<or> str_includes funcName ''sum'' then
        ''    public static int '' @ funcName @ ''('' @ replace_rx rx_word ''int $1'' params
          @ '') {''
      else
        ''    public static Object '' @ funcName @ ''('' @ replace_rx rx_word ''Object $1'' params
          @ '') {'')"

definition py_to_java_rewrite :: "string \<Rightarrow> string" where
  "py_to_java_rewrite code =
     (replace_rx rx_print ''System.out.println($1)''
     (replace_rx rx_None ''null''
     (replace_rx rx_False ''false''
     (replace_rx rx_True ''true''
     (replace_rx rx_return ''        return $1;''
     (rx_replace_all rx_def py_java_signature
     (replace_rx rx_parity ''n % 2 == 0'' code)))))))"

definition convertPythonToJava :: "string \<Rightarrow> string" where
  "convertPythonToJava code =
     join_nl ([''public class '' @ ''CodeConverter'' @ '' {'', py_to_java_rewrite code] @
      [''    }'',
       [],
       ''    public static void main(String[] args) {'',
       ''        // Test the converted function'',
       ''        System.out.println('' @ [CHR 0x22] @ ''Testing converted function:'' @ [CHR 0x22] @ '');'',
       ''        // Add test calls here'',
       ''    }'',
       ''}''])"

subsection \<open>Python to C++\<close>

definition py_cpp_signature :: replacer where
  "py_cpp_signature matched caps pre post =
     (let funcName = capture caps 1; params = capture caps 2 in
      if str_includes funcName ''even'' \<or> str_includes funcName ''odd'' then
        ''bool '' @ funcName @ ''('' @ replace_rx rx_word ''int $1'' params @ '') {''
      else if str_includes funcName ''add'' \<or> str_includes funcName ''sum'' then
        ''int '' @ funcName @ ''('' @ replace_rx rx_word ''int $1'' params @ '') {''
      else
        ''auto '' @ funcName @ ''('' @ replace_rx rx_word ''auto $1'' params @ '') {'')"

definition py_to_cpp_rewrite :: "string \<Rightarrow> string" where
  "py_to_cpp_rewrite code =
     (replace_rx rx_print ''cout << $1 << endl''
     (replace_rx rx_False ''false''
     (replace_rx rx_True ''true''
     (replace_rx rx_return ''    return $1;''
     (rx_replace_all rx_def py_cpp_signature
     (replace_rx rx_parity ''n % 2 == 0'' code))))))"

definition convertPythonToCpp :: "string \<Rightarrow> string" where
  "convertPythonToCpp code =
     join_nl ([''#include <iostream>'',
       ''using namespace std;'',
       []] @
      [py_to_cpp_rewrite code] @
      [''}'',
       [],
       ''int main() {'',
       ''    cout << boolalpha;'',
       ''    // Test the converted function'',
       ''    cout << '' @ [CHR 0x22] @ ''Testing converted function:'' @ [CHR 0x22] @ '' << endl;'',
       ''    // Add test calls here'',
       ''    return 0;'',
       ''}''])"

subsection \<open>JavaScript to Python\<close>

text \<open>\<^verbatim>\<open>/function\s+(\w+)\s*\((.*?)\)\s*{/g\<close>\<close>
definition rx_function_head :: rx where
  "rx_function_head =
     seqs [Str ''function'', ws1, Grp 1 wd1, ws0, Str ''('', Grp 2 (Rep Dot 0 False), Str '')'',
           ws0, Str ''{'']"

text \<open>\<^verbatim>\<open>/(?:const|let|var)\s+(\w+)\s*=\s*(.+);/g\<close>\<close>
definition rx_var_decl :: rx where
  "rx_var_decl =
     seqs [Alt (Str ''const'') (Alt (Str ''let'') (Str ''var'')), ws1, Grp 1 wd1, ws0, Str ''='',
           ws0, Grp 2 (Rep Dot 1 True), Str '';'']"

text \<open>\<^verbatim>\<open>/return\s+(.+);/g\<close>\<close>
definition rx_return_semi :: rx where
  "rx_return_semi = seqs [Str ''return'', ws1, Grp 1 (Rep Dot 1 True), Str '';'']"

text \<open>\<^verbatim>\<open>/\btrue\b/g\<close>, \<^verbatim>\<open>/\bfalse\b/g\<close>, \<^verbatim>\<open>/\bnull\b/g\<close>\<close>
definition rx_true :: rx where "rx_true = seqs [WordB, Str ''true'', WordB]"
definition rx_false :: rx where "rx_false = seqs [WordB, Str ''false'', WordB]"
definition rx_null :: rx where "rx_null = seqs [WordB, Str ''null'', WordB]"

text \<open>\<^verbatim>\<open>/console\.log\s*\((.*?)\)/g\<close>\<close>
definition rx_console_log :: rx where
  "rx_console_log =
     seqs [Str ''console.log'', ws0, Str ''('', Grp 1 (Rep Dot 0 False), Str '')'']"

text \<open>\<^verbatim>\<open>/}/g\<close> and \<^verbatim>\<open>/;$/gm\<close>\<close>
definition rx_close_brace :: rx where "rx_close_brace = Str ''}''"
definition rx_semi_eol :: rx where "rx_semi_eol = seqs [Str '';'', EolM]"

text \<open>\<^verbatim>\<open>/`([^`]*\$\{[^}]*\}[^`]*)`/g\<close>\<close>
definition rx_template_literal :: rx where
  "rx_template_literal =
     seqs [Str [CHR 0x60],
           Grp 1 (seqs [Rep (Not (CHR 0x60)) 0 True, Str ''${'', Rep (Not CHR ''}'') 0 True,
                        Str ''}'', Rep (Not (CHR 0x60)) 0 True]),
           Str [CHR 0x60]]"

text \<open>\<^verbatim>\<open>/\$\{(\w+)\}/g\<close>\<close>
definition rx_dollar_var :: rx where
  "rx_dollar_var = seqs [Str ''${'', Grp 1 wd1, Str ''}'']"

definition convertJavaScriptToPython :: "string \<Rightarrow> string" where
  "convertJavaScriptToPython code =
     (replace_rx rx_dollar_var ''{$1}''
     (replace_rx rx_template_literal ([CHR ''f'', CHR 0x22] @ ''$1'' @ [CHR 0x22])
     (replace_rx rx_semi_eol []
     (replace_rx rx_close_brace []
     (replace_rx rx_console_log ''print($1)''
     (replace_rx rx_null ''None''
     (replace_rx rx_false ''False''
     (replace_rx rx_true ''True''
     (replace_rx rx_return_semi ''return $1''
     (replace_rx rx_var_decl ''$1 = $2''
     (replace_rx rx_function_head ''def $1($2):''
     (replace_rx rx_parity_strict ''n % 2 == 0'' code))))))))))))"

subsection \<open>JavaScript to TypeScript\<close>

definition js_ts_signature :: replacer where
  "js_ts_signature matched caps pre post =
     (let funcName = capture caps 1; params = capture caps 2 in
      if str_includes funcName ''even'' \<or> str_includes funcName ''odd'' then
        ''function '' @ funcName @ ''('' @ replace_rx rx_word ''$1: number'' params
          @ ''): boolean''
      else if str_includes funcName ''add'' \<or> str_includes funcName ''sum'' then
        ''function '' @ funcName @ ''('' @ replace_rx rx_word ''$1: number'' params
          @ ''): number''
      else
        ''function '' @ funcName @ ''('' @ replace_rx rx_word ''$1: any'' params @ ''): any'')"

text \<open>\<^verbatim>\<open>/(?:const|let)\s+(\w+)\s*=\s*(\d+)/g\<close>\<close>
definition rx_decl_number :: rx where
  "rx_decl_number =
     seqs [Alt (Str ''const'') (Str ''let''), ws1, Grp 1 wd1, ws0, Str ''='', ws0,
           Grp 2 (Rep Digit 1 True)]"

text \<open>\<^verbatim>\<open>/(?:const|let)\s+(\w+)\s*=\s*(true|false)/g\<close>\<close>
definition rx_decl_boolean :: rx where
  "rx_decl_boolean =
     seqs [Alt (Str ''const'') (Str ''let''), ws1, Grp 1 wd1, ws0, Str ''='', ws0,
           Grp 2 (Alt (Str ''true'') (Str ''false''))]"

text \<open>\<^verbatim>\<open>/(?:const|let)\s+(\w+)\s*=\s*"([^"]*)"/g\<close>\<close>
definition rx_decl_string :: rx where
  "rx_decl_string =
     seqs [Alt (Str ''const'') (Str ''let''), ws1, Grp 1 wd1, ws0, Str ''='', ws0,
           Str [CHR 0x22], Grp 2 (Rep (Not (CHR 0x22)) 0 True), Str [CHR 0x22]]"

definition convertJavaScriptToTypeScript :: "string \<Rightarrow> string" where
  "convertJavaScriptToTypeScript code =
     (replace_rx rx_decl_string (''const $1: string = '' @ [CHR 0x22] @ ''$2'' @ [CHR 0x22])
     (replace_rx rx_decl_boolean ''const $1: boolean = $2''
     (replace_rx rx_decl_number ''const $1: number = $2''
     (rx_replace_all rx_function_sig js_ts_signature code))))"

subsection \<open>Java to Python\<close>

text \<open>\<^verbatim>\<open>/public\s+class\s+\w+\s*{[\s\S]*?public\s+static\s+/g\<close>\<close>
definition rx_class_head :: rx where
  "rx_class_head =
     seqs [Str ''public'', ws1, Str ''class'', ws1, wd1, ws0, Str ''{'', Rep AnyCh 0 False,
           Str ''public'', ws1, Str ''static'', ws1]"

text \<open>\<^verbatim>\<open>/public\s+static\s+(boolean|int|void|String)\s+(\w+)\s*\((.*?)\)\s*{/g\<close>\<close>
definition rx_java_method :: rx where
  "rx_java_method =
     seqs [Str ''public'', ws1, Str ''static'', ws1,
           Grp 1 (Alt (Str ''boolean'') (Alt (Str ''int'') (Alt (Str ''void'') (Str ''String'')))),
           ws1, Grp 2 wd1, ws0, Str ''('', Grp 3 (Rep Dot 0 False), Str '')'', ws0, Str ''{'']"

text \<open>\<^verbatim>\<open>/int\s+(\w+)/g\<close>, \<^verbatim>\<open>/boolean\s+(\w+)/g\<close>, \<^verbatim>\<open>/String\s+(\w+)/g\<close>\<close>
definition rx_int_param :: rx where "rx_int_param = seqs [Str ''int'', ws1, Grp 1 wd1]"
definition rx_boolean_param :: rx where "rx_boolean_param = seqs [Str ''boolean'', ws1, Grp 1 wd1]"
definition rx_String_param :: rx where "rx_String_param = seqs [Str ''String'', ws1, Grp 1 wd1]"

text \<open>\<^verbatim>\<open>/System\.out\.println\s*\((.*?)\)/g\<close>\<close>
definition rx_println :: rx where
  "rx_println =
     seqs [Str ''System.out.println'', ws0, Str ''('', Grp 1 (Rep Dot 0 False), Str '')'']"

definition convertJavaToPython :: "string \<Rightarrow> string" where
  "convertJavaToPython code =
     (replace_rx rx_semi_eol []
     (replace_rx rx_close_brace []
     (replace_rx rx_println ''print($1)''
     (replace_rx rx_null ''None''
     (replace_rx rx_false ''False''
     (replace_rx rx_true ''True''
     (replace_rx rx_return_semi ''return $1''
     (replace_rx rx_String_param ''$1''
     (replace_rx rx_boolean_param ''$1''
     (replace_rx rx_int_param ''$1''
     (replace_rx rx_java_method ''def $2($3):''
     (replace_rx rx_class_head [] code))))))))))))"

subsection \<open>C++ to Python\<close>

text \<open>\<^verbatim>\<open>/#include\s*<.*?>/g\<close>\<close>
definition rx_include :: rx where
  "rx_include = seqs [Str ''#include'', ws0, Str ''<'', Rep Dot 0 False, Str ''>'']"

text \<open>\<^verbatim>\<open>/using\s+namespace\s+std;/g\<close>\<close>
definition rx_using_std :: rx where
  "rx_using_std = seqs [Str ''using'', ws1, Str ''namespace'', ws1, Str ''std;'']"

text \<open>\<^verbatim>\<open>/(bool|int|void|auto)\s+(\w+)\s*\((.*?)\)\s*{/g\<close>\<close>
definition rx_cpp_function :: rx where
  "rx_cpp_function =
     seqs [Grp 1 (Alt (Str ''bool'') (Alt (Str ''int'') (Alt (Str ''void'') (Str ''auto'')))),
           ws1, Grp 2 wd1, ws0, Str ''('', Grp 3 (Rep Dot 0 False), Str '')'', ws0, Str ''{'']"

text \<open>\<^verbatim>\<open>/bool\s+(\w+)/g\<close>, \<^verbatim>\<open>/auto\s+(\w+)/g\<close>\<close>
definition rx_bool_param :: rx where "rx_bool_param = seqs [Str ''bool'', ws1, Grp 1 wd1]"
definition rx_auto_param :: rx where "rx_auto_param = seqs [Str ''auto'', ws1, Grp 1 wd1]"

text \<open>\<^verbatim>\<open>/cout\s*<<\s*(.*?)\s*<<\s*endl/g\<close>\<close>
definition rx_cout :: rx where
  "rx_cout =
     seqs [Str ''cout'', ws0, Str ''<<'', ws0, Grp 1 (Rep Dot 0 False), ws0, Str ''<<'', ws0,
           Str ''endl'']"

definition convertCppToPython :: "string \<Rightarrow> string" where
  "convertCppToPython code =
     (replace_rx rx_semi_eol []
     (replace_rx rx_close_brace []
     (replace_rx rx_cout ''print($1)''
     (replace_rx rx_false ''False''
     (replace_rx rx_true ''True''
     (replace_rx rx_return_semi ''return $1''
     (replace_rx rx_auto_param ''$1''
     (replace_rx rx_bool_param ''$1''
     (replace_rx rx_int_param ''$1''
     (replace_rx rx_cpp_function ''def $2($3):''
     (replace_rx rx_using_std []
     (replace_rx rx_include [] code))))))))))))"

subsection \<open>The template fallback\<close>

definition getLanguageTemplate :: "string \<Rightarrow> string" where
  "getLanguageTemplate language =
     (if language = ''javascript'' then
        join_nl [''function convertedFunction() {'',
           ''    // Implement your logic here'',
           ''    return null;'',
           ''}'']
      else if language = ''python'' then
        join_nl [''def converted_function():'',
           ''    # Implement your logic here'',
           ''    return None'']
      else if language = ''java'' then
        join_nl [''public class ConvertedCode {'',
           ''    public static Object convertedFunction() {'',
           ''        // Implement your logic here'',
           ''        return null;'',
           ''    }'',
           ''}'']
      else if language = ''cpp'' then
        join_nl [''#include <iostream>'',
           ''using namespace std;'',
           [],
           ''auto convertedFunction() {'',
           ''    // Implement your logic here'',
           ''    return nullptr;'',
           ''}'']
      else ''// Implement your converted logic here'')"

definition generateConversionTemplate :: "string \<Rightarrow> string \<Rightarrow> string \<Rightarrow> string" where
  "generateConversionTemplate code sourceLanguage targetLanguage =
     join_nl
       [''// Converted from '' @ sourceLanguage @ '' to '' @ targetLanguage,
        ''// Note: This conversion may require manual adjustment'',
        [],
        ''/* Original '' @ sourceLanguage @ '' code:'',
        join_nl (map (\<lambda>line. '' * '' @ line) (split_nl code)),
        '' */'',
        [],
        ''// TODO: Implement '' @ targetLanguage @ '' equivalent'',
        ''// The conversion for '' @ sourceLanguage @ '' -> '' @ targetLanguage
          @ '' requires manual implementation'',
        ''// Please review the original code above and implement the equivalent logic in ''
          @ targetLanguage,
        [],
        getLanguageTemplate targetLanguage]"

subsection \<open>Dispatch\<close>

definition performLanguageConversion :: "string \<Rightarrow> string \<Rightarrow> string \<Rightarrow> js_error + string" where
  "performLanguageConversion code sourceLanguage targetLanguage =
     (let conversionKey = sourceLanguage @ ''-'' @ targetLanguage in
      if conversionKey = ''python-javascript'' then convertPythonToJavaScript code
      else if conversionKey = ''python-typescript'' then convertPythonToTypeScript code
      else if conversionKey = ''python-java'' then Inr (convertPythonToJava code)
      else if conversionKey = ''python-cpp'' then Inr (convertPythonToCpp code)
      else if conversionKey = ''javascript-python'' then Inr (convertJavaScriptToPython code)
      else if conversionKey = ''javascript-typescript'' then
        Inr (convertJavaScriptToTypeScript code)
      else if conversionKey = ''java-python'' then Inr (convertJavaToPython code)
      else if conversionKey = ''cpp-python'' then Inr (convertCppToPython code)
      else Inr (generateConversionTemplate code sourceLanguage targetLanguage))"

datatype mode = Convert | Fix

text \<open>
  \<^verbatim>\<open>convertCode\<close> without its delay: what the promise resolves to (\<open>Inr\<close>) or is
  rejected with (\<open>Inl\<close>).
\<close>

definition convertCode :: "string \<Rightarrow> string \<Rightarrow> string \<Rightarrow> mode \<Rightarrow> js_error + string" where
  "convertCode code sourceLanguage targetLanguage m =
     (if m = Fix then Inr (fixLogicalErrors code sourceLanguage)
      else performLanguageConversion code sourceLanguage targetLanguage)"

section \<open>The test simulator: \<^verbatim>\<open>runTestCases\<close>\<close>

text \<open>
  The test cases are \<^verbatim>\<open>any[]\<close>, in the application the result of \<^verbatim>\<open>JSON.parse\<close>:
  a value is \<^verbatim>\<open>undefined\<close>, \<^verbatim>\<open>null\<close>, a boolean, a number, a string, an array or an
  object with its own properties in order (a name is looked up from the front of the
  list). Numbers are IEEE doubles; their type \<open>'n\<close>
  and the operators that compute with them are parameters of the model (\<open>js_ops\<close>):
  \<^verbatim>\<open>v % 2 === 0\<close>, \<^verbatim>\<open>a + b\<close>, \<^verbatim>\<open>a * b\<close> and \<^verbatim>\<open>a === b\<close>, none of which throws on
  such values, and the text an engine gives to the message of a TypeError.

  The last parameter, \<open>inherited_name\<close>, is for \<^verbatim>\<open>patterns[language]\<close> in
  \<^verbatim>\<open>extractFunctionName\<close> when \<open>language\<close> is not one of the five keys of the table but a
  name that the table inherits from \<^verbatim>\<open>Object.prototype\<close>, such as \<^verbatim>\<open>constructor\<close> or
  \<^verbatim>\<open>__proto__\<close>. \<^verbatim>\<open>code.match\<close> then makes a regular expression from the text of the
  inherited value, which depends on the engine and on what has been put on the prototype.
  \<open>inherited_name ops language code\<close> is \<open>None\<close> when \<open>language\<close> is not an inherited
  name, and otherwise the outcome of \<^verbatim>\<open>extractFunctionName(code, language)\<close>: an error
  thrown, \<^verbatim>\<open>undefined\<close> (\<open>Inr None\<close>, a match that has no group 1) or a string.
\<close>

datatype 'n jsval =
    Undefined
  | Null
  | Bool bool
  | Num 'n
  | JStr string
  | Arr "'n jsval list"
  | Obj "(string \<times> 'n jsval) list"

record 'n js_ops =
  rem2_is_zero :: "'n jsval \<Rightarrow> bool"
  js_plus :: "'n jsval \<Rightarrow> 'n jsval \<Rightarrow> 'n jsval"
  js_times :: "'n jsval \<Rightarrow> 'n jsval \<Rightarrow> 'n jsval"
  strict_eq :: "'n jsval \<Rightarrow> 'n jsval \<Rightarrow> bool"
  cannot_read :: "'n jsval \<Rightarrow> string \<Rightarrow> string"
  not_iterable :: "'n jsval \<Rightarrow> string"
  inherited_name :: "string \<Rightarrow> string \<Rightarrow> (js_error + string option) option"

text \<open>
  \<^verbatim>\<open>extractFunctionName\<close>: the patterns of the table are
  \<^verbatim>\<open>/def\s+(\w+)/\<close>, \<^verbatim>\<open>/function\s+(\w+)/\<close> (twice),
  \<^verbatim>\<open>/public\s+static\s+\w+\s+(\w+)/\<close> and \<^verbatim>\<open>/\w+\s+(\w+)\s*\(/\<close>. In each of them group
  1 takes part in every match, so \<^verbatim>\<open>match[1]\<close> is a string. A language that is neither a
  key of the table nor an inherited name gives \<^verbatim>\<open>undefined\<close> for the pattern and
  \<^verbatim>\<open>'unknown'\<close> for the name.
\<close>

definition patterns :: "string \<Rightarrow> rx option" where
  "patterns language =
     (if language = ''python'' then Some (seqs [Str ''def'', ws1, Grp 1 wd1])
      else if language = ''javascript'' then Some (seqs [Str ''function'', ws1, Grp 1 wd1])
      else if language = ''typescript'' then Some (seqs [Str ''function'', ws1, Grp 1 wd1])
      else if language = ''java'' then
        Some (seqs [Str ''public'', ws1, Str ''static'', ws1, wd1, ws1, Grp 1 wd1])
      else if language = ''cpp'' then Some (seqs [wd1, ws1, Grp 1 wd1, ws0, Str ''(''])
      else None)"

definition extractFunctionName :: "'n js_ops \<Rightarrow> string \<Rightarrow> string \<Rightarrow> js_error + string option" where
  "extractFunctionName ops code language =
     (case patterns language of
        Some pat \<Rightarrow>
          Inr (Some (case rx_match pat code of Some caps \<Rightarrow> capture caps 1 | None \<Rightarrow> ''unknown''))
      | None \<Rightarrow>
          (case inherited_name ops language code of
             Some outcome \<Rightarrow> outcome
           | None \<Rightarrow> Inr (Some ''unknown'')))"

text \<open>\<^verbatim>\<open>v.name\<close> for the names \<^verbatim>\<open>input\<close> and \<^verbatim>\<open>expected\<close>, which no prototype
  defines: a TypeError on \<^verbatim>\<open>undefined\<close> and \<^verbatim>\<open>null\<close>.\<close>

fun get_field :: "'n js_ops \<Rightarrow> 'n jsval \<Rightarrow> string \<Rightarrow> js_error + 'n jsval" where
  "get_field ops Undefined name = Inl (TypeError (cannot_read ops Undefined name))"
| "get_field ops Null name = Inl (TypeError (cannot_read ops Null name))"
| "get_field ops (Obj kvs) name =
     (case map_of kvs name of Some v \<Rightarrow> Inr v | None \<Rightarrow> Inr Undefined)"
| "get_field ops v name = Inr Undefined"

text \<open>\<^verbatim>\<open>v[0]\<close>\<close>

fun get_first :: "'n js_ops \<Rightarrow> 'n jsval \<Rightarrow> js_error + 'n jsval" where
  "get_first ops Undefined = Inl (TypeError (cannot_read ops Undefined ''0''))"
| "get_first ops Null = Inl (TypeError (cannot_read ops Null ''0''))"
| "get_first ops (Arr xs) = (case xs of [] \<Rightarrow> Inr Undefined | x # _ \<Rightarrow> Inr x)"
| "get_first ops (JStr s) = (case s of [] \<Rightarrow> Inr Undefined | c # _ \<Rightarrow> Inr (JStr [c]))"
| "get_first ops (Obj kvs) =
     (case map_of kvs ''0'' of Some v \<Rightarrow> Inr v | None \<Rightarrow> Inr Undefined)"
| "get_first ops v = Inr Undefined"

text \<open>\<^verbatim>\<open>const [a, b] = v\<close>: arrays and strings are iterable.\<close>

fun first_two :: "'n jsval list \<Rightarrow> 'n jsval \<times> 'n jsval" where
  "first_two [] = (Undefined, Undefined)"
| "first_two [a] = (a, Undefined)"
| "first_two (a # b # _) = (a, b)"

fun destructure_pair :: "'n js_ops \<Rightarrow> 'n jsval \<Rightarrow> js_error + ('n jsval \<times> 'n jsval)" where
  "destructure_pair ops (Arr xs) = Inr (first_two xs)"
| "destructure_pair ops (JStr s) = Inr (first_two (map (\<lambda>c. JStr [c]) s))"
| "destructure_pair ops v = Inl (TypeError (not_iterable ops v))"

record 'n test_result =
  passed :: bool
  actual :: "'n jsval"
  expected :: "'n jsval"
  input :: "'n jsval"
  error :: "string option"

text \<open>Sequencing of steps that may throw: the first error ends the block.\<close>

definition and_then :: "js_error + 'a \<Rightarrow> ('a \<Rightarrow> js_error + 'b) \<Rightarrow> js_error + 'b" where
  "and_then r f = (case r of Inl e \<Rightarrow> Inl e | Inr v \<Rightarrow> f v)"

text \<open>
  The body of the \<^verbatim>\<open>try\<close> block after \<^verbatim>\<open>functionName\<close> has been computed, for a
  name that is a string. Each read of \<^verbatim>\<open>testCase.input\<close> and \<^verbatim>\<open>testCase.expected\<close> is
  a step, in the order of evaluation of the source.
\<close>

definition try_named :: "'n js_ops \<Rightarrow> string \<Rightarrow> 'n jsval \<Rightarrow> js_error + 'n test_result" where
  "try_named ops functionName testCase =
     (if str_includes functionName ''even'' \<or> str_includes functionName ''Even'' then
        and_then (get_field ops testCase ''input'') (\<lambda>i.
        and_then (get_first ops i) (\<lambda>inp.
        let act = Bool (rem2_is_zero ops inp) in
        and_then (get_field ops testCase ''expected'') (\<lambda>ex.
        and_then (get_field ops testCase ''expected'') (\<lambda>ex'.
        and_then (get_field ops testCase ''input'') (\<lambda>i'.
        Inr \<lparr>passed = strict_eq ops act ex, actual = act, expected = ex', input = i',
             error = None\<rparr>)))))
      else if str_includes functionName ''add'' \<or> str_includes functionName ''sum'' then
        and_then (get_field ops testCase ''input'') (\<lambda>i.
        and_then (destructure_pair ops i) (\<lambda>(a, b).
        let act = js_plus ops a b in
        and_then (get_field ops testCase ''expected'') (\<lambda>ex.
        and_then (get_field ops testCase ''expected'') (\<lambda>ex'.
        and_then (get_field ops testCase ''input'') (\<lambda>i'.
        Inr \<lparr>passed = strict_eq ops act ex, actual = act, expected = ex', input = i',
             error = None\<rparr>)))))
      else if str_includes functionName ''multiply'' then
        and_then (get_field ops testCase ''input'') (\<lambda>i.
        and_then (destructure_pair ops i) (\<lambda>(a, b).
        let act = js_times ops a b in
        and_then (get_field ops testCase ''expected'') (\<lambda>ex.
        and_then (get_field ops testCase ''expected'') (\<lambda>ex'.
        and_then (get_field ops testCase ''input'') (\<lambda>i'.
        Inr \<lparr>passed = strict_eq ops act ex, actual = act, expected = ex', input = i',
             error = None\<rparr>)))))
      else
        and_then (get_field ops testCase ''expected'') (\<lambda>ex.
        and_then (get_field ops testCase ''expected'') (\<lambda>ex'.
        and_then (get_field ops testCase ''input'') (\<lambda>i'.
        Inr \<lparr>passed = True, actual = ex, expected = ex', input = i', error = None\<rparr>))))"

text \<open>
  What the \<^verbatim>\<open>try\<close> block does with the outcome of \<^verbatim>\<open>extractFunctionName\<close>: an
  error goes on to the \<^verbatim>\<open>catch\<close> block, and on \<^verbatim>\<open>undefined\<close> the first call
  \<^verbatim>\<open>functionName.includes('even')\<close> throws a TypeError.
\<close>

definition try_rest :: "'n js_ops \<Rightarrow> 'n jsval \<Rightarrow> js_error + string option \<Rightarrow>
    js_error + 'n test_result" where
  "try_rest ops testCase outcome =
     and_then outcome (\<lambda>functionName.
       case functionName of
         None \<Rightarrow> Inl (TypeError (cannot_read ops Undefined ''includes''))
       | Some name \<Rightarrow> try_named ops name testCase)"

text \<open>The body of the \<^verbatim>\<open>try\<close> block.\<close>

definition try_case :: "'n js_ops \<Rightarrow> string \<Rightarrow> string \<Rightarrow> 'n jsval \<Rightarrow>
    js_error + 'n test_result" where
  "try_case ops code language testCase =
     try_rest ops testCase (extractFunctionName ops code language)"

text \<open>\<^verbatim>\<open>error instanceof Error ? error.message : 'Unknown error'\<close>: every error of the
  model is an \<^verbatim>\<open>Error\<close>.\<close>

fun error_message :: "js_error \<Rightarrow> string" where
  "error_message (TypeError msg) = msg"
| "error_message (SyntaxError msg) = msg"
| "error_message RangeError = ''Invalid count value''"

text \<open>The body of the \<^verbatim>\<open>catch\<close> block: it reads the test case again.\<close>

definition catch_case :: "'n js_ops \<Rightarrow> 'n jsval \<Rightarrow> js_error \<Rightarrow> js_error + 'n test_result" where
  "catch_case ops testCase err =
     and_then (get_field ops testCase ''expected'') (\<lambda>ex.
     and_then (get_field ops testCase ''input'') (\<lambda>i.
     Inr \<lparr>passed = False, actual = Null, expected = ex, input = i,
          error = Some (error_message err)\<rparr>))"

text \<open>What the \<^verbatim>\<open>try\<close> statement gives, from the outcome of its \<^verbatim>\<open>try\<close> block.\<close>

definition or_catch :: "'n js_ops \<Rightarrow> 'n jsval \<Rightarrow> js_error + 'n test_result \<Rightarrow>
    js_error + 'n test_result" where
  "or_catch ops testCase tried =
     (case tried of
        Inr r \<Rightarrow> Inr r
      | Inl err \<Rightarrow> catch_case ops testCase err)"

text \<open>The callback of \<^verbatim>\<open>testCases.map\<close>.\<close>

definition run_case :: "'n js_ops \<Rightarrow> string \<Rightarrow> string \<Rightarrow> 'n jsval \<Rightarrow> js_error + 'n test_result" where
  "run_case ops code language testCase =
     or_catch ops testCase (try_case ops code language testCase)"

text \<open>\<^verbatim>\<open>Array.prototype.map\<close> with a callback that may throw: the first error ends it.\<close>

fun map_throwing :: "('a \<Rightarrow> js_error + 'b) \<Rightarrow> 'a list \<Rightarrow> js_error + 'b list" where
  "map_throwing f [] = Inr []"
| "map_throwing f (x # xs) =
     (case f x of
        Inl e \<Rightarrow> Inl e
      | Inr y \<Rightarrow> (case map_throwing f xs of Inl e \<Rightarrow> Inl e | Inr ys \<Rightarrow> Inr (y # ys)))"

text \<open>\<^verbatim>\<open>runTestCases\<close> without its delay: what the promise resolves to (\<open>Inr\<close>) or
  is rejected with (\<open>Inl\<close>).\<close>

definition runTestCases :: "'n js_ops \<Rightarrow> string \<Rightarrow> string \<Rightarrow> 'n jsval list \<Rightarrow>
    js_error + 'n test_result list" where
  "runTestCases ops code language testCases = map_throwing (run_case ops code language) testCases"

section \<open>Language detection: \<^verbatim>\<open>detectLanguage\<close>\<close>

text \<open>The signature patterns, language by language, in the order of the source.\<close>

definition cpp_signatures :: "rx list" where
  "cpp_signatures =
     [seqs [Str ''#include'', ws0, Str ''<''],
      seqs [Bos, Str ''int'', ws1, Str ''main'', ws0, Str ''(''],
      seqs [Str ''std::'', wd1],
      seqs [Str ''cout'', ws0, Str ''<<''],
      seqs [Str ''using'', ws1, Str ''namespace'', ws1, Str ''std'']]"

definition python_signatures :: "rx list" where
  "python_signatures =
     [seqs [Bos, Str ''def'', ws1, wd1, ws0, Str ''(''],
      seqs [Bos, Str ''class'', ws1, wd1],
      seqs [Str ''import'', ws1, wd1],
      seqs [Str ''from'', ws1, wd1, ws1, Str ''import''],
      seqs [Str ''print'', ws0, Str ''('']]"

definition javascript_signatures :: "rx list" where
  "javascript_signatures =
     [seqs [Bos, Str ''function'', ws1, wd1, ws0, Str ''(''],
      seqs [Bos, Str ''const'', ws1, wd1, ws0, Str ''=''],
      seqs [Bos, Str ''let'', ws1, wd1, ws0, Str ''=''],
      seqs [Bos, Str ''var'', ws1, wd1, ws0, Str ''=''],
      seqs [Bos, Str ''export'', ws1, Opt (Grp 1 (seqs [Str ''default'', ws1]))],
      seqs [Bos, Str ''import'', ws1, Rep Dot 0 True, Str ''from''],
      Str ''console.log'']"

definition java_signatures :: "rx list" where
  "java_signatures =
     [seqs [Bos, Str ''public'', ws1, Str ''class'', ws1, wd1],
      seqs [Bos, Str ''public'', ws1, Str ''static'', ws1, Str ''void'', ws1, Str ''main''],
      seqs [Bos, Str ''package'', ws1, wd1],
      Str ''System.out.println'']"

definition csharp_signatures :: "rx list" where
  "csharp_signatures =
     [seqs [Bos, Str ''using'', ws1, Str ''System''],
      seqs [Bos, Str ''namespace'', ws1, wd1],
      Str ''Console.WriteLine'']"

definition go_signatures :: "rx list" where
  "go_signatures =
     [seqs [Bos, Str ''package'', ws1, Str ''main''],
      seqs [Bos, Str ''func'', ws1, wd1],
      Str ''fmt.Print'']"

definition rust_signatures :: "rx list" where
  "rust_signatures =
     [seqs [Bos, Str ''fn'', ws1, wd1],
      seqs [Str ''println!'', ws0, Str ''(''],
      seqs [Str ''let'', ws1, Str ''mut'', ws1]]"

text \<open>A chain of \<^verbatim>\<open>r.test(trimmedCode) || ...\<close>.\<close>

definition any_test :: "rx list \<Rightarrow> string \<Rightarrow> bool" where
  "any_test rs s = list_ex (\<lambda>r. rx_test r s) rs"

definition detectLanguage :: "string \<Rightarrow> string" where
  "detectLanguage code =
     (let trimmedCode = trim code in
      if any_test cpp_signatures trimmedCode then ''cpp''
      else if any_test python_signatures trimmedCode then ''python''
      else if any_test javascript_signatures trimmedCode then
        (if str_includes trimmedCode '': '' \<and> str_includes trimmedCode ''function''
         then ''typescript'' else ''javascript'')
      else if any_test java_signatures trimmedCode then ''java''
      else if any_test csharp_signatures trimmedCode then ''csharp''
      else if any_test go_signatures trimmedCode then ''go''
      else if any_test rust_signatures trimmedCode then ''rust''
      else ''plaintext'')"

section \<open>Regular-expression objects\<close>

text \<open>
  The definitions above read a pattern as a value and start every scan at the beginning
  of the text. In the program a pattern is an object: each evaluation of a
  regular-expression literal makes a new object, and the object has the property
  \<^verbatim>\<open>lastIndex\<close>, which \<^verbatim>\<open>test\<close>, \<^verbatim>\<open>match\<close> and \<^verbatim>\<open>replace\<close> read and write. This
  section has the objects and the operations on them as ECMAScript defines them
  (\<^verbatim>\<open>RegExpBuiltinExec\<close>, \<^verbatim>\<open>RegExp.prototype[Symbol.replace]\<close>), so that what a run
  does to this state, and what it reads of it, is part of the model.

  The objects are in a store, addressed by their position. A computation takes the store
  it starts in and gives its result and the store it leaves.
\<close>

record regexp =
  source :: rx
  global :: bool
  lastIndex :: nat

type_synonym store = "regexp list"
type_synonym 'a js = "store \<Rightarrow> 'a \<times> store"

definition js_return :: "'a \<Rightarrow> 'a js" where
  "js_return x h = (x, h)"

definition js_bind :: "'a js \<Rightarrow> ('a \<Rightarrow> 'b js) \<Rightarrow> 'b js" where
  "js_bind m f h = (case m h of (x, h') \<Rightarrow> f x h')"

text \<open>A chain of method calls \<^verbatim>\<open>s.f(...).g(...)\<close>: each takes the result of the one
  before.\<close>

fun chain :: "'a js \<Rightarrow> ('a \<Rightarrow> 'a js) list \<Rightarrow> 'a js" where
  "chain m [] = m"
| "chain m (f # fs) = chain (js_bind m f) fs"

text \<open>Evaluating a literal \<^verbatim>\<open>/r/\<close> or \<^verbatim>\<open>/r/g\<close>: a new object, with \<^verbatim>\<open>lastIndex\<close> 0.\<close>

definition regexp_literal :: "rx \<Rightarrow> bool \<Rightarrow> nat js" where
  "regexp_literal r g h = (length h, h @ [\<lparr>source = r, global = g, lastIndex = 0\<rparr>])"

text \<open>
  The loop of \<^verbatim>\<open>RegExpBuiltinExec\<close>: from index \<open>i\<close> on, the first index where the
  pattern matches, with the length of the match and its captures; no match when \<open>i\<close> is
  beyond the end of the text.
\<close>

function search_from :: "rx \<Rightarrow> string \<Rightarrow> nat \<Rightarrow> (nat \<times> nat \<times> captures) option" where
  "search_from r S i =
     (if length S < i then None
      else (case rx_exec r (rev (take i S)) (drop i S) of
              Some (n, caps) \<Rightarrow> Some (i, n, caps)
            | None \<Rightarrow> search_from r S (Suc i)))"
  by pat_completeness auto
termination
  by (relation "measure (\<lambda>(r, S, i). Suc (length S) - i)") auto

declare search_from.simps [simp del]

text \<open>
  \<^verbatim>\<open>RegExpBuiltinExec(R, S)\<close>: a pattern with the \<^verbatim>\<open>g\<close> flag starts at its
  \<^verbatim>\<open>lastIndex\<close> and is left with the end of the match there, or with 0 when there is no
  match; a pattern without the flag starts at 0 and is left as it was. The result is the
  index of the match, its length and its captures.
\<close>

definition RegExpBuiltinExec :: "regexp \<Rightarrow> string \<Rightarrow> (nat \<times> nat \<times> captures) option \<times> regexp" where
  "RegExpBuiltinExec R S =
     (case search_from (source R) S (if global R then lastIndex R else 0) of
        None \<Rightarrow> (None, if global R then R\<lparr>lastIndex := 0\<rparr> else R)
      | Some (index, n, caps) \<Rightarrow>
          (Some (index, n, caps), if global R then R\<lparr>lastIndex := index + n\<rparr> else R))"

text \<open>The same on the object at address \<open>a\<close> of the store.\<close>

definition RegExpExec :: "nat \<Rightarrow> string \<Rightarrow> (nat \<times> nat \<times> captures) option js" where
  "RegExpExec a S h = (case RegExpBuiltinExec (h ! a) S of (result, R) \<Rightarrow> (result, h[a := R]))"

text \<open>\<^verbatim>\<open>pattern.test(S)\<close>\<close>

definition RegExp_test :: "nat \<Rightarrow> string \<Rightarrow> bool js" where
  "RegExp_test a S = js_bind (RegExpExec a S) (\<lambda>result. js_return (result \<noteq> None))"

text \<open>\<^verbatim>\<open>S.match(pattern)\<close> for a pattern without the \<^verbatim>\<open>g\<close> flag, which is how the source
  calls it: the captures of the match that \<^verbatim>\<open>RegExpExec\<close> finds.\<close>

definition String_match :: "string \<Rightarrow> nat \<Rightarrow> captures option js" where
  "String_match S a =
     js_bind (RegExpExec a S) (\<lambda>result. js_return (map_option (\<lambda>(index, n, caps). caps) result))"

text \<open>
  \<^verbatim>\<open>RegExp.prototype[Symbol.replace]\<close>, the loop that collects the matches: after each
  match of a pattern with the \<^verbatim>\<open>g\<close> flag the next search starts at the \<^verbatim>\<open>lastIndex\<close>
  that the match left, moved on by one after an empty match; a pattern without the flag
  gives its first match only.
\<close>

function collect_results :: "regexp \<Rightarrow> string \<Rightarrow> (nat \<times> nat \<times> captures) list \<times> regexp" where
  "collect_results R S =
     (case RegExpBuiltinExec R S of
        (None, R') \<Rightarrow> ([], R')
      | (Some (index, n, caps), R') \<Rightarrow>
          if \<not> global R' then ([(index, n, caps)], R')
          else (case collect_results (if n = 0 then R'\<lparr>lastIndex := lastIndex R' + 1\<rparr> else R') S of
                  (results, R'') \<Rightarrow> ((index, n, caps) # results, R'')))"
  by pat_completeness auto
termination
proof (relation "measure (\<lambda>(R, S). length S + 2 - lastIndex R)")
  have bounds: "i \<le> index \<and> index \<le> length S"
    if "search_from r S i = Some (index, n, caps)" for r S i index n caps
    using that
  proof (induction r S i rule: search_from.induct)
    case (1 r S i)
    show ?case
    proof (cases "rx_exec r (rev (take i S)) (drop i S)")
      case None
      with "1.prems" have "\<not> length S < i" and "search_from r S (Suc i) = Some (index, n, caps)"
        by (auto simp add: search_from.simps[of r S i] split: if_splits)
      with "1.IH"[OF this(1) None] show ?thesis by simp
    next
      case (Some a)
      with "1.prems" show ?thesis by (auto simp add: search_from.simps[of r S i] split: if_splits)
    qed
  qed
  fix R :: regexp and S x R' x2 index y n caps
  assume e: "(x, R') = RegExpBuiltinExec R S" "x = Some x2" "(index, y) = x2" "(n, caps) = y"
    and g: "\<not> \<not> global R'"
  from e have "RegExpBuiltinExec R S = (Some (index, n, caps), R')" by (metis)
  then have s: "search_from (source R) S (if global R then lastIndex R else 0) = Some (index, n, caps)"
    and R': "R' = (if global R then R\<lparr>lastIndex := index + n\<rparr> else R)"
    by (auto simp add: RegExpBuiltinExec_def split: option.splits)
  from g R' have gR: "global R" by (auto split: if_splits)
  from bounds[OF s] gR have "lastIndex R \<le> index" "index \<le> length S" by simp_all
  with gR R'
  show "((if n = 0 then R'\<lparr>lastIndex := lastIndex R' + 1\<rparr> else R', S), R, S)
          \<in> measure (\<lambda>(R, S). length S + 2 - lastIndex R)"
    by auto
qed simp

declare collect_results.simps [simp del]

text \<open>
  The rest of \<^verbatim>\<open>RegExp.prototype[Symbol.replace]\<close>: the text between the matches and,
  for each match, what the replace value gives. A replace value gets the matched text,
  the captures and the text before and after the match; it is a computation, since the
  functions that the source passes evaluate literals of their own.
\<close>

type_synonym js_replacer = "string \<Rightarrow> captures \<Rightarrow> string \<Rightarrow> string \<Rightarrow> string js"

fun substitute :: "string \<Rightarrow> (nat \<times> nat \<times> captures) list \<Rightarrow> js_replacer \<Rightarrow> nat \<Rightarrow> string \<Rightarrow>
    string js" where
  "substitute S [] replaceValue nextSourcePosition accumulatedResult =
     js_return (accumulatedResult @ drop nextSourcePosition S)"
| "substitute S ((position, matchLength, caps) # results) replaceValue nextSourcePosition
       accumulatedResult =
     js_bind (replaceValue (take matchLength (drop position S)) caps (take position S)
                (drop (position + matchLength) S))
       (\<lambda>replacement.
          if nextSourcePosition \<le> position then
            substitute S results replaceValue (position + matchLength)
              (accumulatedResult
               @ take (position - nextSourcePosition) (drop nextSourcePosition S) @ replacement)
          else substitute S results replaceValue nextSourcePosition accumulatedResult)"

text \<open>\<^verbatim>\<open>S.replace(pattern, f)\<close> for a function \<open>f\<close>: \<^verbatim>\<open>lastIndex\<close> is set to 0 first
  when the pattern has the \<^verbatim>\<open>g\<close> flag.\<close>

definition String_replace :: "string \<Rightarrow> nat \<Rightarrow> js_replacer \<Rightarrow> string js" where
  "String_replace S a replaceValue h =
     (case collect_results (if global (h ! a) then (h ! a)\<lparr>lastIndex := 0\<rparr> else h ! a) S of
        (results, R) \<Rightarrow> substitute S results replaceValue 0 [] (h[a := R]))"

text \<open>\<^verbatim>\<open>S.replace(pattern, t)\<close> for a string \<open>t\<close>, read as a replacement template.\<close>

definition String_replace_template :: "string \<Rightarrow> nat \<Rightarrow> string \<Rightarrow> string js" where
  "String_replace_template S a t h =
     String_replace S a
       (\<lambda>matched caps pre post. js_return (template (source (h ! a)) t matched caps pre post)) h"

text \<open>\<^verbatim>\<open>S.replace(/r/g, t)\<close> and \<^verbatim>\<open>S.replace(/r/g, f)\<close> with the pattern written as a
  literal in the call.\<close>

definition replace_literal :: "rx \<Rightarrow> string \<Rightarrow> string \<Rightarrow> string js" where
  "replace_literal r t S = js_bind (regexp_literal r True) (\<lambda>a. String_replace_template S a t)"

definition replace_literal_with :: "rx \<Rightarrow> js_replacer \<Rightarrow> string \<Rightarrow> string js" where
  "replace_literal_with r f S = js_bind (regexp_literal r True) (\<lambda>a. String_replace S a f)"

section \<open>Runs of the two entry points\<close>

text \<open>
  The program once more, now as computations on the store of regular-expression objects:
  every literal is evaluated where the source evaluates it, and every \<^verbatim>\<open>test\<close>,
  \<^verbatim>\<open>match\<close> and \<^verbatim>\<open>replace\<close> works on the object and its \<^verbatim>\<open>lastIndex\<close>. The parts of the
  source that use no regular expression are the functions of the sections above.
\<close>

subsection \<open>Fix mode\<close>

text \<open>The array literal \<^verbatim>\<open>errorPatterns\<close>: six objects, each with a new pattern, the
  replacement and the comment.\<close>

definition errorPatterns_run :: "(nat \<times> string \<times> string) list js" where
  "errorPatterns_run =
     js_bind (regexp_literal rx_parity True) (\<lambda>p1.
     js_bind (regexp_literal rx_parity_strict True) (\<lambda>p2.
     js_bind (regexp_literal rx_off_by_one True) (\<lambda>p3.
     js_bind (regexp_literal rx_bounds True) (\<lambda>p4.
     js_bind (regexp_literal rx_and_true True) (\<lambda>p5.
     js_bind (regexp_literal rx_or_false True) (\<lambda>p6.
     js_return
       [(p1, ''n % 2 == 0'', ''Fixed: even numbers have remainder 0''),
        (p2, ''n % 2 === 0'', ''Fixed: even numbers have remainder 0''),
        (p3, ''for (let i = 0; i < $1.length'', ''Fixed: off-by-one error''),
        (p4, ''[$1.length - 1]'', ''Fixed: array index out of bounds''),
        (p5, [], ''Simplified: && true is redundant''),
        (p6, [], ''Simplified: || false is redundant'')]))))))"

text \<open>The body of the \<^verbatim>\<open>forEach\<close>: \<^verbatim>\<open>test\<close> and then \<^verbatim>\<open>replace\<close> on the same
  object.\<close>

definition apply_rule_run :: "string \<Rightarrow> nat \<times> string \<times> string \<Rightarrow> string js" where
  "apply_rule_run fixedCode rule =
     (case rule of (pattern', replacement', comment') \<Rightarrow>
        js_bind (RegExp_test pattern' fixedCode) (\<lambda>found.
          if found then
            js_bind (String_replace_template fixedCode pattern' replacement') (\<lambda>fixed.
              js_return
                (if \<not> str_includes fixed comment'
                 then replace_str replacement' (replacement' @ ''  // '' @ comment') fixed
                 else fixed))
          else js_return fixedCode))"

text \<open>\<^verbatim>\<open>forEach\<close> with a body that updates \<^verbatim>\<open>fixedCode\<close>.\<close>

fun for_each :: "('s \<Rightarrow> 'a \<Rightarrow> 's js) \<Rightarrow> 'a list \<Rightarrow> 's \<Rightarrow> 's js" where
  "for_each body [] s = js_return s"
| "for_each body (x # xs) s = js_bind (body s x) (for_each body xs)"

definition fixLogicalErrors_run :: "string \<Rightarrow> string \<Rightarrow> string js" where
  "fixLogicalErrors_run code language =
     js_bind errorPatterns_run (\<lambda>errorPatterns. for_each apply_rule_run errorPatterns code)"

subsection \<open>Convert mode\<close>

definition py_to_js_rewrite_run :: "string \<Rightarrow> string js" where
  "py_to_js_rewrite_run code =
     chain (js_return code)
       [replace_literal rx_parity ''n % 2 === 0'',
        replace_literal rx_def ''function $1($2) {'',
        replace_literal rx_return ''  return $1;'',
        replace_literal rx_True ''true'',
        replace_literal rx_False ''false'',
        replace_literal rx_None ''null'',
        replace_literal rx_elif ''else if'',
        replace_literal rx_colon_eol '' {'',
        replace_literal rx_print ''console.log($1)'',
        replace_literal rx_fstring [CHR 0x60, CHR ''$'', CHR ''1'', CHR 0x60],
        replace_literal rx_brace_var ''${$1}'']"

definition convertPythonToJavaScript_run :: "string \<Rightarrow> (js_error + string) js" where
  "convertPythonToJavaScript_run code =
     js_bind (py_to_js_rewrite_run code) (\<lambda>converted.
       js_return
         (case format_lines (split_nl converted) ([], 0, 0) of
            Inl e \<Rightarrow> Inl e
          | Inr (result, braceCount, indentLevel) \<Rightarrow>
              (case close_braces braceCount (result, indentLevel) of
                 Inl e \<Rightarrow> Inl e
               | Inr (result', indentLevel') \<Rightarrow> Inr (join_nl result'))))"

definition py_ts_signature_run :: js_replacer where
  "py_ts_signature_run matched caps pre post =
     (let funcName = capture caps 1; params = capture caps 2 in
      if str_includes funcName ''even'' \<or> str_includes funcName ''odd'' then
        js_bind (replace_literal rx_word ''$1: number'' params) (\<lambda>typedParams.
          js_return (''function '' @ funcName @ ''('' @ typedParams @ ''): boolean''))
      else if str_includes funcName ''add'' \<or> str_includes funcName ''sum''
              \<or> str_includes funcName ''multiply'' then
        js_bind (replace_literal rx_word ''$1: number'' params) (\<lambda>typedParams.
          js_return (''function '' @ funcName @ ''('' @ typedParams @ ''): number''))
      else
        js_bind (replace_literal rx_word ''$1: any'' params) (\<lambda>typedParams.
          js_return (''function '' @ funcName @ ''('' @ typedParams @ ''): any'')))"

definition convertPythonToTypeScript_run :: "string \<Rightarrow> (js_error + string) js" where
  "convertPythonToTypeScript_run code =
     js_bind (convertPythonToJavaScript_run code) (\<lambda>outcome.
       case outcome of
         Inl e \<Rightarrow> js_return (Inl e)
       | Inr jsCode \<Rightarrow>
           js_bind (replace_literal_with rx_function_sig py_ts_signature_run jsCode) (\<lambda>typed.
             js_return (Inr typed)))"

definition py_java_signature_run :: js_replacer where
  "py_java_signature_run matched caps pre post =
     (let funcName = capture caps 1; params = capture caps 2 in
      if str_includes funcName ''even'' \<or> str_includes funcName ''odd'' then
        js_bind (replace_literal rx_word ''int $1'' params) (\<lambda>javaParams.
          js_return (''    public static boolean '' @ funcName @ ''('' @ javaParams @ '') {''))
      else if str_includes funcName ''add'' \<or> str_includes funcName ''sum'' then
        js_bind (replace_literal rx_word ''int $1'' params) (\<lambda>javaParams.
          js_return (''    public static int '' @ funcName @ ''('' @ javaParams @ '') {''))
      else
        js_bind (replace_literal rx_word ''Object $1'' params) (\<lambda>javaParams.
          js_return (''    public static Object '' @ funcName @ ''('' @ javaParams @ '') {'')))"

definition py_to_java_rewrite_run :: "string \<Rightarrow> string js" where
  "py_to_java_rewrite_run code =
     chain (js_return code)
       [replace_literal rx_parity ''n % 2 == 0'',
        replace_literal_with rx_def py_java_signature_run,
        replace_literal rx_return ''        return $1;'',
        replace_literal rx_True ''true'',
        replace_literal rx_False ''false'',
        replace_literal rx_None ''null'',
        replace_literal rx_print ''System.out.println($1)'']"

definition convertPythonToJava_run :: "string \<Rightarrow> string js" where
  "convertPythonToJava_run code =
     js_bind (py_to_java_rewrite_run code) (\<lambda>converted.
       js_return
         (join_nl ([''public class '' @ ''CodeConverter'' @ '' {'', converted] @
            [''    }'',
             [],
             ''    public static void main(String[] args) {'',
             ''        // Test the converted function'',
             ''        System.out.println('' @ [CHR 0x22] @ ''Testing converted function:'' @ [CHR 0x22] @ '');'',
             ''        // Add test calls here'',
             ''    }'',
             ''}''])))"

definition py_cpp_signature_run :: js_replacer where
  "py_cpp_signature_run matched caps pre post =
     (let funcName = capture caps 1; params = capture caps 2 in
      if str_includes funcName ''even'' \<or> str_includes funcName ''odd'' then
        js_bind (replace_literal rx_word ''int $1'' params) (\<lambda>cppParams.
          js_return (''bool '' @ funcName @ ''('' @ cppParams @ '') {''))
      else if str_includes funcName ''add'' \<or> str_includes funcName ''sum'' then
        js_bind (replace_literal rx_word ''int $1'' params) (\<lambda>cppParams.
          js_return (''int '' @ funcName @ ''('' @ cppParams @ '') {''))
      else
        js_bind (replace_literal rx_word ''auto $1'' params) (\<lambda>cppParams.
          js_return (''auto '' @ funcName @ ''('' @ cppParams @ '') {'')))"

definition py_to_cpp_rewrite_run :: "string \<Rightarrow> string js" where
  "py_to_cpp_rewrite_run code =
     chain (js_return code)
       [replace_literal rx_parity ''n % 2 == 0'',
        replace_literal_with rx_def py_cpp_signature_run,
        replace_literal rx_return ''    return $1;'',
        replace_literal rx_True ''true'',
        replace_literal rx_False ''false'',
        replace_literal rx_print ''cout << $1 << endl'']"

definition convertPythonToCpp_run :: "string \<Rightarrow> string js" where
  "convertPythonToCpp_run code =
     js_bind (py_to_cpp_rewrite_run code) (\<lambda>converted.
       js_return
         (join_nl ([''#include <iostream>'',
            ''using namespace std;'',
            []] @
           [converted] @
           [''}'',
            [],
            ''int main() {'',
            ''    cout << boolalpha;'',
            ''    // Test the converted function'',
            ''    cout << '' @ [CHR 0x22] @ ''Testing converted function:'' @ [CHR 0x22] @ '' << endl;'',
            ''    // Add test calls here'',
            ''    return 0;'',
            ''}''])))"

definition convertJavaScriptToPython_run :: "string \<Rightarrow> string js" where
  "convertJavaScriptToPython_run code =
     chain (js_return code)
       [replace_literal rx_parity_strict ''n % 2 == 0'',
        replace_literal rx_function_head ''def $1($2):'',
        replace_literal rx_var_decl ''$1 = $2'',
        replace_literal rx_return_semi ''return $1'',
        replace_literal rx_true ''True'',
        replace_literal rx_false ''False'',
        replace_literal rx_null ''None'',
        replace_literal rx_console_log ''print($1)'',
        replace_literal rx_close_brace [],
        replace_literal rx_semi_eol [],
        replace_literal rx_template_literal ([CHR ''f'', CHR 0x22] @ ''$1'' @ [CHR 0x22]),
        replace_literal rx_dollar_var ''{$1}'']"

definition js_ts_signature_run :: js_replacer where
  "js_ts_signature_run matched caps pre post =
     (let funcName = capture caps 1; params = capture caps 2 in
      if str_includes funcName ''even'' \<or> str_includes funcName ''odd'' then
        js_bind (replace_literal rx_word ''$1: number'' params) (\<lambda>typedParams.
          js_return (''function '' @ funcName @ ''('' @ typedParams @ ''): boolean''))
      else if str_includes funcName ''add'' \<or> str_includes funcName ''sum'' then
        js_bind (replace_literal rx_word ''$1: number'' params) (\<lambda>typedParams.
          js_return (''function '' @ funcName @ ''('' @ typedParams @ ''): number''))
      else
        js_bind (replace_literal rx_word ''$1: any'' params) (\<lambda>typedParams.
          js_return (''function '' @ funcName @ ''('' @ typedParams @ ''): any'')))"

definition convertJavaScriptToTypeScript_run :: "string \<Rightarrow> string js" where
  "convertJavaScriptToTypeScript_run code =
     chain (js_return code)
       [replace_literal_with rx_function_sig js_ts_signature_run,
        replace_literal rx_decl_number ''const $1: number = $2'',
        replace_literal rx_decl_boolean ''const $1: boolean = $2'',
        replace_literal rx_decl_string
          (''const $1: string = '' @ [CHR 0x22] @ ''$2'' @ [CHR 0x22])]"

definition convertJavaToPython_run :: "string \<Rightarrow> string js" where
  "convertJavaToPython_run code =
     chain (js_return code)
       [replace_literal rx_class_head [],
        replace_literal rx_java_method ''def $2($3):'',
        replace_literal rx_int_param ''$1'',
        replace_literal rx_boolean_param ''$1'',
        replace_literal rx_String_param ''$1'',
        replace_literal rx_return_semi ''return $1'',
        replace_literal rx_true ''True'',
        replace_literal rx_false ''False'',
        replace_literal rx_null ''None'',
        replace_literal rx_println ''print($1)'',
        replace_literal rx_close_brace [],
        replace_literal rx_semi_eol []]"

definition convertCppToPython_run :: "string \<Rightarrow> string js" where
  "convertCppToPython_run code =
     chain (js_return code)
       [replace_literal rx_include [],
        replace_literal rx_using_std [],
        replace_literal rx_cpp_function ''def $2($3):'',
        replace_literal rx_int_param ''$1'',
        replace_literal rx_bool_param ''$1'',
        replace_literal rx_auto_param ''$1'',
        replace_literal rx_return_semi ''return $1'',
        replace_literal rx_true ''True'',
        replace_literal rx_false ''False'',
        replace_literal rx_cout ''print($1)'',
        replace_literal rx_close_brace [],
        replace_literal rx_semi_eol []]"

text \<open>The results of the pipelines that cannot throw are wrapped in \<open>Inr\<close>.\<close>

definition returned :: "'a js \<Rightarrow> (js_error + 'a) js" where
  "returned m = js_bind m (\<lambda>x. js_return (Inr x))"

definition performLanguageConversion_run :: "string \<Rightarrow> string \<Rightarrow> string \<Rightarrow> (js_error + string) js" where
  "performLanguageConversion_run code sourceLanguage targetLanguage =
     (let conversionKey = sourceLanguage @ ''-'' @ targetLanguage in
      if conversionKey = ''python-javascript'' then convertPythonToJavaScript_run code
      else if conversionKey = ''python-typescript'' then convertPythonToTypeScript_run code
      else if conversionKey = ''python-java'' then returned (convertPythonToJava_run code)
      else if conversionKey = ''python-cpp'' then returned (convertPythonToCpp_run code)
      else if conversionKey = ''javascript-python'' then
        returned (convertJavaScriptToPython_run code)
      else if conversionKey = ''javascript-typescript'' then
        returned (convertJavaScriptToTypeScript_run code)
      else if conversionKey = ''java-python'' then returned (convertJavaToPython_run code)
      else if conversionKey = ''cpp-python'' then returned (convertCppToPython_run code)
      else js_return (Inr (generateConversionTemplate code sourceLanguage targetLanguage)))"

text \<open>\<^verbatim>\<open>convertCode\<close> after its delay.\<close>

definition convertCode_run :: "string \<Rightarrow> string \<Rightarrow> string \<Rightarrow> mode \<Rightarrow> (js_error + string) js" where
  "convertCode_run code sourceLanguage targetLanguage m =
     (if m = Fix then returned (fixLogicalErrors_run code sourceLanguage)
      else performLanguageConversion_run code sourceLanguage targetLanguage)"

subsection \<open>The test simulator\<close>

text \<open>
  \<^verbatim>\<open>extractFunctionName\<close> is called in the \<^verbatim>\<open>try\<close> block of every test case, and every
  call evaluates the object literal \<^verbatim>\<open>patterns\<close> with its five patterns, which have no
  \<^verbatim>\<open>g\<close> flag.
\<close>

definition extractFunctionName_run :: "'n js_ops \<Rightarrow> string \<Rightarrow> string \<Rightarrow>
    (js_error + string option) js" where
  "extractFunctionName_run ops code language =
     js_bind (regexp_literal (seqs [Str ''def'', ws1, Grp 1 wd1]) False) (\<lambda>python.
     js_bind (regexp_literal (seqs [Str ''function'', ws1, Grp 1 wd1]) False) (\<lambda>javascript.
     js_bind (regexp_literal (seqs [Str ''function'', ws1, Grp 1 wd1]) False) (\<lambda>typescript.
     js_bind (regexp_literal
                (seqs [Str ''public'', ws1, Str ''static'', ws1, wd1, ws1, Grp 1 wd1]) False) (\<lambda>java.
     js_bind (regexp_literal (seqs [wd1, ws1, Grp 1 wd1, ws0, Str ''('']) False) (\<lambda>cpp.
       case map_of [(''python'', python), (''javascript'', javascript),
                    (''typescript'', typescript), (''java'', java), (''cpp'', cpp)] language of
         Some pattern' \<Rightarrow>
           js_bind (String_match code pattern') (\<lambda>match'.
             js_return
               (Inr (Some (case match' of Some caps \<Rightarrow> capture caps 1 | None \<Rightarrow> ''unknown''))))
       | None \<Rightarrow>
           js_return
             (case inherited_name ops language code of
                Some outcome \<Rightarrow> outcome
              | None \<Rightarrow> Inr (Some ''unknown'')))))))"

definition try_case_run :: "'n js_ops \<Rightarrow> string \<Rightarrow> string \<Rightarrow> 'n jsval \<Rightarrow>
    (js_error + 'n test_result) js" where
  "try_case_run ops code language testCase =
     js_bind (extractFunctionName_run ops code language) (\<lambda>outcome.
       js_return (try_rest ops testCase outcome))"

definition run_case_run :: "'n js_ops \<Rightarrow> string \<Rightarrow> string \<Rightarrow> 'n jsval \<Rightarrow>
    (js_error + 'n test_result) js" where
  "run_case_run ops code language testCase =
     js_bind (try_case_run ops code language testCase) (\<lambda>tried.
       js_return (or_catch ops testCase tried))"

fun map_throwing_run :: "('a \<Rightarrow> (js_error + 'b) js) \<Rightarrow> 'a list \<Rightarrow> (js_error + 'b list) js" where
  "map_throwing_run f [] = js_return (Inr [])"
| "map_throwing_run f (x # xs) =
     js_bind (f x) (\<lambda>outcome.
       case outcome of
         Inl e \<Rightarrow> js_return (Inl e)
       | Inr y \<Rightarrow>
           js_bind (map_throwing_run f xs) (\<lambda>rest.
             js_return (case rest of Inl e \<Rightarrow> Inl e | Inr ys \<Rightarrow> Inr (y # ys))))"

text \<open>\<^verbatim>\<open>runTestCases\<close> after its delay.\<close>

definition runTestCases_run :: "'n js_ops \<Rightarrow> string \<Rightarrow> string \<Rightarrow> 'n jsval list \<Rightarrow>
    (js_error + 'n test_result list) js" where
  "runTestCases_run ops code language testCases =
     map_throwing_run (run_case_run ops code language) testCases"

subsection \<open>Runs\<close>

text \<open>
  Both entry points are asynchronous: they wait for a timer and then compute. A run
  starts in some store, the one that whatever ran before has left, and settles after
  some time, not less than the timer's delay in milliseconds, with an outcome; it
  leaves its own store behind.
\<close>

inductive convertCode_settles ::
    "string \<Rightarrow> string \<Rightarrow> string \<Rightarrow> mode \<Rightarrow> store \<Rightarrow> nat \<Rightarrow> js_error + string \<Rightarrow> bool" where
  convert_run: "1500 \<le> elapsed \<Longrightarrow>
     convertCode_run code sourceLanguage targetLanguage m h = (out, h') \<Longrightarrow>
     convertCode_settles code sourceLanguage targetLanguage m h elapsed out"

inductive runTestCases_settles ::
    "'n js_ops \<Rightarrow> string \<Rightarrow> string \<Rightarrow> 'n jsval list \<Rightarrow> store \<Rightarrow> nat \<Rightarrow>
     js_error + 'n test_result list \<Rightarrow> bool" where
  test_run: "1000 \<le> elapsed \<Longrightarrow>
     runTestCases_run ops code language testCases h = (results, h') \<Longrightarrow>
     runTestCases_settles ops code language testCases h elapsed results"

section \<open>Notions used to state the properties\<close>

text \<open>The lines of the rewritten text that are not blank, in order.\<close>

definition kept_lines :: "string \<Rightarrow> string list" where
  "kept_lines code = filter (\<lambda>l. trim l \<noteq> []) (split_nl (py_to_js_rewrite code))"

text \<open>How many of the first \<open>i\<close> lines contain an opening brace.\<close>

definition opens_before :: "string list \<Rightarrow> nat \<Rightarrow> nat" where
  "opens_before ls i = length (filter (\<lambda>l. str_includes l ''{'') (take i ls))"

text \<open>Each line trimmed and indented by two spaces for every opening line before it.\<close>

definition reindented :: "string list \<Rightarrow> string list" where
  "reindented ls = map (\<lambda>i. indent (opens_before ls i) @ trim (ls ! i)) [0..<length ls]"

text \<open>\<open>n\<close> closing braces, the innermost first.\<close>

definition closing_braces :: "nat \<Rightarrow> string list" where
  "closing_braces n = map (\<lambda>k. indent k @ ''}'') (rev [0..<n])"

text \<open>A test case on which reading a property throws.\<close>

definition nullish :: "'n jsval \<Rightarrow> bool" where
  "nullish v \<longleftrightarrow> v = Undefined \<or> v = Null"

section \<open>The language of a pattern\<close>

text \<open>
  The texts a pattern can match, without regard to what is around them (an anchor or a word
  boundary matches the empty text). The matcher is sound for it: what it matches is in
  the language.
\<close>

fun lang :: "rx \<Rightarrow> string set" where
  "lang (Str w) = {w}"
| "lang (Atom c) = {[x] | x. in_cls c x}"
| "lang (Rep c n g) = {w. n \<le> length w \<and> (\<forall>x \<in> set w. in_cls c x)}"
| "lang (Seq a b) = {u @ v | u v. u \<in> lang a \<and> v \<in> lang b}"
| "lang (Alt a b) = lang a \<union> lang b"
| "lang (Opt a) = insert [] (lang a)"
| "lang (Grp i a) = lang a"
| "lang Bos = {[]}"
| "lang EolM = {[]}"
| "lang WordB = {[]}"





section \<open>The example conversion\<close>

text \<open>
  C6. Converting \<^verbatim>\<open>def is_even(n):\n    return n % 2 != 0\<close> from Python to JavaScript
  gives the three lines \<^verbatim>\<open>function is_even(n) {\<close>, \<^verbatim>\<open>  return n % 2 === 0;\<close> and
  \<^verbatim>\<open>}\<close>: a text with as many \<^verbatim>\<open>{\<close> as \<^verbatim>\<open>}\<close>, in which the comparison of
  \<^verbatim>\<open>n % 2\<close> with 0 is written with \<^verbatim>\<open>=== \<close> and no \<^verbatim>\<open>!=\<close> is left.
\<close>

theorem is_even_conversion:
  "convertPythonToJavaScript (''def is_even(n):'' @ [newline] @ ''    return n % 2 != 0'')
     = Inr (''function is_even(n) {'' @ [newline] @ ''  return n % 2 === 0;'' @ [newline]
            @ ''}'')
   \<and> count_list (''function is_even(n) {'' @ [newline] @ ''  return n % 2 === 0;'' @ [newline]
                  @ ''}'') CHR ''{''
     = count_list (''function is_even(n) {'' @ [newline] @ ''  return n % 2 === 0;'' @ [newline]
                   @ ''}'') CHR ''}''
   \<and> sublist ''n % 2 === 0'' (''function is_even(n) {'' @ [newline] @ ''  return n % 2 === 0;''
                               @ [newline] @ ''}'')
   \<and> \<not> sublist ''!='' (''function is_even(n) {'' @ [newline] @ ''  return n % 2 === 0;''
                         @ [newline] @ ''}'')"
  by code_simp

section \<open>Soundness of the matcher\<close>

lemma lit_sound: "lit w p s = Some (p', s') \<Longrightarrow> s = w @ s'"
  by (induction w p s rule: lit.induct) (auto split: if_splits)

lemma rep_greedy_sound:
  "rep_greedy c n p s k = Some res \<Longrightarrow>
   \<exists>w s' p'. s = w @ s' \<and> n \<le> length w \<and> (\<forall>x \<in> set w. in_cls c x) \<and> k p' s' = Some res"
proof (induction s arbitrary: n p)
  case Nil
  then show ?case by (auto split: if_splits)
next
  case (Cons x xs)
  show ?case
  proof (cases "in_cls c x \<and> rep_greedy c (n - 1) (Some x) xs k = Some res")
    case True
    with Cons.IH[of "n - 1" "Some x"] obtain w s' p' where
      "xs = w @ s'" "n - 1 \<le> length w" "\<forall>x \<in> set w. in_cls c x" "k p' s' = Some res"
      by blast
    with True show ?thesis
      by (intro exI[of _ "x # w"] exI[of _ s'] exI[of _ p']) auto
  next
    case False
    with Cons.prems have "n = 0 \<and> k p (x # xs) = Some res"
      by (auto split: if_splits option.splits)
    then show ?thesis by (intro exI[of _ "[]"] exI[of _ "x # xs"] exI[of _ p]) auto
  qed
qed

lemma rep_lazy_sound:
  "rep_lazy c n p s k = Some res \<Longrightarrow>
   \<exists>w s' p'. s = w @ s' \<and> n \<le> length w \<and> (\<forall>x \<in> set w. in_cls c x) \<and> k p' s' = Some res"
proof (induction s arbitrary: n p)
  case Nil
  then show ?case by (auto split: if_splits)
next
  case (Cons x xs)
  show ?case
  proof (cases "n = 0 \<and> k p (x # xs) = Some res")
    case True
    then show ?thesis by (intro exI[of _ "[]"] exI[of _ "x # xs"] exI[of _ p]) auto
  next
    case False
    with Cons.prems have "in_cls c x \<and> rep_lazy c (n - 1) (Some x) xs k = Some res"
      by (auto split: if_splits option.splits)
    with Cons.IH[of "n - 1" "Some x"] obtain w s' p' where
      "xs = w @ s'" "n - 1 \<le> length w" "\<forall>x \<in> set w. in_cls c x" "k p' s' = Some res"
      "in_cls c x"
      by blast
    then show ?thesis
      by (intro exI[of _ "x # w"] exI[of _ s'] exI[of _ p']) auto
  qed
qed

lemma rx_m_sound:
  "rx_m r (p, s, cs) k = Some res \<Longrightarrow>
   \<exists>w s' p' cs'. s = w @ s' \<and> w \<in> lang r \<and> k (p', s', cs') = Some res
      \<and> (\<forall>e \<in> set cs'. e \<in> set cs \<or> sublist (snd e) w)"
proof (induction r arbitrary: p s cs k res)
  case (Str w)
  then obtain p' s' where l: "lit w p s = Some (p', s')" and k: "k (p', s', cs) = Some res"
    by (auto split: option.splits)
  from lit_sound[OF l] k show ?case by (intro exI[of _ w] exI[of _ s'] exI[of _ p'] exI[of _ cs]) auto
next
  case (Atom c)
  then obtain x xs where "s = x # xs" "in_cls c x" "k (Some x, xs, cs) = Some res"
    by (auto split: list.splits if_splits)
  then show ?case by (intro exI[of _ "[x]"] exI[of _ xs] exI[of _ "Some x"] exI[of _ cs]) auto
next
  case (Rep c n g)
  then have "\<exists>w s' p'. s = w @ s' \<and> n \<le> length w \<and> (\<forall>x \<in> set w. in_cls c x)
      \<and> k (p', s', cs) = Some res"
    using rep_greedy_sound[of c n p s "\<lambda>p' s'. k (p', s', cs)" res]
          rep_lazy_sound[of c n p s "\<lambda>p' s'. k (p', s', cs)" res]
    by (auto split: if_splits)
  then obtain w s' p' where "s = w @ s'" "n \<le> length w" "\<forall>x \<in> set w. in_cls c x"
      "k (p', s', cs) = Some res" by blast
  then show ?case by (intro exI[of _ w] exI[of _ s'] exI[of _ p'] exI[of _ cs]) auto
next
  case (Seq a b)
  from Seq.prems have "rx_m a (p, s, cs) (\<lambda>st'. rx_m b st' k) = Some res" by simp
  from Seq.IH(1)[OF this] obtain wa sa pa ca where
    a: "s = wa @ sa" "wa \<in> lang a" "rx_m b (pa, sa, ca) k = Some res"
       "\<forall>e \<in> set ca. e \<in> set cs \<or> sublist (snd e) wa" by blast
  from Seq.IH(2)[OF a(3)] obtain wb sb pb cb where
    b: "sa = wb @ sb" "wb \<in> lang b" "k (pb, sb, cb) = Some res"
       "\<forall>e \<in> set cb. e \<in> set ca \<or> sublist (snd e) wb" by blast
  have "\<forall>e \<in> set cb. e \<in> set cs \<or> sublist (snd e) (wa @ wb)"
  proof
    fix e assume "e \<in> set cb"
    with b(4) a(4) consider "e \<in> set cs" | "sublist (snd e) wa" | "sublist (snd e) wb" by blast
    then show "e \<in> set cs \<or> sublist (snd e) (wa @ wb)"
      by cases (auto simp add: sublist_append)
  qed
  with a b show ?case
    by (intro exI[of _ "wa @ wb"] exI[of _ sb] exI[of _ pb] exI[of _ cb]) auto
next
  case (Alt a b)
  then have "rx_m a (p, s, cs) k = Some res \<or> rx_m b (p, s, cs) k = Some res"
    by (auto split: option.splits)
  then show ?case
  proof
    assume "rx_m a (p, s, cs) k = Some res"
    from Alt.IH(1)[OF this] obtain w s' p' cs' where
      "s = w @ s'" "w \<in> lang a" "k (p', s', cs') = Some res"
      "\<forall>e \<in> set cs'. e \<in> set cs \<or> sublist (snd e) w" by blast
    then show ?thesis by (intro exI[of _ w] exI[of _ s'] exI[of _ p'] exI[of _ cs']) auto
  next
    assume "rx_m b (p, s, cs) k = Some res"
    from Alt.IH(2)[OF this] obtain w s' p' cs' where
      "s = w @ s'" "w \<in> lang b" "k (p', s', cs') = Some res"
      "\<forall>e \<in> set cs'. e \<in> set cs \<or> sublist (snd e) w" by blast
    then show ?thesis by (intro exI[of _ w] exI[of _ s'] exI[of _ p'] exI[of _ cs']) auto
  qed
next
  case (Opt a)
  then have "rx_m a (p, s, cs) k = Some res \<or> k (p, s, cs) = Some res"
    by (auto split: option.splits)
  then show ?case
  proof
    assume "rx_m a (p, s, cs) k = Some res"
    from Opt.IH[OF this] obtain w s' p' cs' where
      "s = w @ s'" "w \<in> lang a" "k (p', s', cs') = Some res"
      "\<forall>e \<in> set cs'. e \<in> set cs \<or> sublist (snd e) w" by blast
    then show ?thesis by (intro exI[of _ w] exI[of _ s'] exI[of _ p'] exI[of _ cs']) auto
  next
    assume "k (p, s, cs) = Some res"
    then show ?thesis by (intro exI[of _ "[]"] exI[of _ s] exI[of _ p] exI[of _ cs]) auto
  qed
next
  case (Grp i a)
  let ?k = "\<lambda>(p', s', cs'). k (p', s', (i, take (length s - length s') s) # cs')"
  from Grp.prems have "rx_m a (p, s, cs) ?k = Some res" by simp
  from Grp.IH[OF this] obtain w s' p' cs' where
    g: "s = w @ s'" "w \<in> lang a" "?k (p', s', cs') = Some res"
       "\<forall>e \<in> set cs'. e \<in> set cs \<or> sublist (snd e) w" by blast
  have t: "take (length s - length s') s = w" using g(1) by simp
  from g(3) have "k (p', s', (i, w) # cs') = Some res" using t by simp
  with g show ?case
    by (intro exI[of _ w] exI[of _ s'] exI[of _ p'] exI[of _ "(i, w) # cs'"]) auto
next
  case Bos
  then show ?case by (intro exI[of _ "[]"] exI[of _ s] exI[of _ p] exI[of _ cs]) (auto split: if_splits)
next
  case EolM
  then show ?case by (intro exI[of _ "[]"] exI[of _ s] exI[of _ p] exI[of _ cs]) (auto split: if_splits)
next
  case WordB
  then show ?case by (intro exI[of _ "[]"] exI[of _ s] exI[of _ p] exI[of _ cs]) (auto split: if_splits)
qed

lemma rx_exec_sound:
  assumes "rx_exec r pre s = Some (n, caps)"
  shows "n \<le> length s \<and> take n s \<in> lang r \<and> (\<forall>e \<in> set caps. sublist (snd e) (take n s))"
proof -
  from assms have "rx_m r (prev_char pre, s, [])
      (\<lambda>(p', s', cs). Some (length s - length s', cs)) = Some (n, caps)"
    by (simp add: rx_exec_def)
  from rx_m_sound[OF this] obtain w s' p' cs' where
    "s = w @ s'" "w \<in> lang r" "length s - length s' = n" "cs' = caps"
    "\<forall>e \<in> set cs'. e \<in> set [] \<or> sublist (snd e) w" by auto
  then show ?thesis by auto
qed

section \<open>Global replacement\<close>














section \<open>The six rules\<close>























































































section \<open>Fix mode\<close>




text \<open>
  C7. For each rule whose pattern occurs, all occurrences are replaced and then, unless the
  explanation is already in the text, the explanation is appended as a comment right after
  an occurrence of the replacement. The source looks for the place of the comment with
  \<^verbatim>\<open>fixedCode.replace(replacement, ...)\<close>, where \<open>replacement\<close> is the template of the
  rule. For the array-bounds rule the template is \<^verbatim>\<open>[$1.length - 1]\<close>, which is not the
  text that was put in: on \<^verbatim>\<open>x = arr[arr.length]\<close> the rule fires, the text becomes
  \<^verbatim>\<open>x = arr[arr.length - 1]\<close>, and no explanation is appended.
\<close>

theorem bounds_fix_has_no_comment:
  "rx_test rx_bounds ''x = arr[arr.length]''
   \<and> fixLogicalErrors ''x = arr[arr.length]'' ''javascript'' = ''x = arr[arr.length - 1]''
   \<and> \<not> str_includes (fixLogicalErrors ''x = arr[arr.length]'' ''javascript'')
          ''Fixed: array index out of bounds''"
  by code_simp

section \<open>Convert mode\<close>

text \<open>
  C2. Every supported pair corrects the parity check as its first step. Three of the eight
  pipelines have no such step: JavaScript to TypeScript, Java to Python and C++ to Python
  return the comparison as it was (the last two only drop the semicolon).
\<close>

theorem parity_bug_survives_conversion:
  "performLanguageConversion ''return n % 2 !== 0;'' ''javascript'' ''typescript''
     = Inr ''return n % 2 !== 0;''
   \<and> performLanguageConversion ''return n % 2 != 0;'' ''java'' ''python''
     = Inr ''return n % 2 != 0''
   \<and> performLanguageConversion ''return n % 2 != 0;'' ''cpp'' ''python''
     = Inr ''return n % 2 != 0''"
  by code_simp

section \<open>The template fallback\<close>

lemma split_nl_nonempty: "split_nl s \<noteq> []"
  by (induction s) (auto split: list.splits)

lemma join_split_nl: "join_nl (split_nl s) = s"
proof (induction s)
  case Nil show ?case by simp
next
  case (Cons c cs)
  obtain l ls where sp: "split_nl cs = l # ls"
    using split_nl_nonempty[of cs] by (cases "split_nl cs") auto
  show ?case using Cons sp by (cases ls) auto
qed

lemma split_nl_no_newline: "newline \<notin> set s \<Longrightarrow> split_nl s = [s]"
  by (induction s) auto

lemma split_nl_lines: "l \<in> set (split_nl s) \<Longrightarrow> newline \<notin> set l"
proof (induction s arbitrary: l)
  case Nil then show ?case by simp
next
  case (Cons c cs)
  obtain k ks where sp: "split_nl cs = k # ks"
    using split_nl_nonempty[of cs] by (cases "split_nl cs") auto
  show ?case using Cons sp by (auto split: if_splits)
qed

lemma map_drop_prefix: "map (drop 3) (map (\<lambda>line. '' * '' @ line) ls) = ls"
  by (induction ls) auto

text \<open>
  C3, as the code has it. The scaffold holds the source inside its block comment line by
  line, each line after the prefix \<^verbatim>\<open> * \<close>: the comment is the line
  \<^verbatim>\<open>/* Original <source language> code:\<close>, the prefixed lines of the source in order,
  and the line \<^verbatim>\<open> */\<close>. Taking the three characters of the prefix off every line gives
  the source back, character by character, and a source of one line is in the output as
  it is.
\<close>

theorem scaffold_holds_prefixed_lines:
  "sublist (''/* Original '' @ sourceLanguage @ '' code:'' @ [newline]
            @ join_nl (map (\<lambda>line. '' * '' @ line) (split_nl code)) @ [newline] @ '' */'')
     (generateConversionTemplate code sourceLanguage targetLanguage)
   \<and> join_nl (map (drop 3) (map (\<lambda>line. '' * '' @ line) (split_nl code))) = code
   \<and> (newline \<notin> set code \<longrightarrow>
        sublist code (generateConversionTemplate code sourceLanguage targetLanguage))"
proof (intro conjI impI)
  define body where "body = join_nl (map (\<lambda>line. '' * '' @ line) (split_nl code))"
  define mid where "mid = ''/* Original '' @ sourceLanguage @ '' code:'' @ [newline] @ body @ [newline] @ '' */''"
  define ps where "ps = ''// Converted from '' @ sourceLanguage @ '' to '' @ targetLanguage @ [newline]
        @ ''// Note: This conversion may require manual adjustment'' @ [newline] @ [newline]"
  define ss where "ss = [newline] @ [newline] @ ''// TODO: Implement '' @ targetLanguage @ '' equivalent'' @ [newline]
        @ ''// The conversion for '' @ sourceLanguage @ '' -> '' @ targetLanguage
          @ '' requires manual implementation'' @ [newline]
        @ ''// Please review the original code above and implement the equivalent logic in ''
          @ targetLanguage @ [newline] @ [newline] @ getLanguageTemplate targetLanguage"
  have "generateConversionTemplate code sourceLanguage targetLanguage = ps @ mid @ ss"
    unfolding generateConversionTemplate_def body_def[symmetric]
    by (simp add: ps_def mid_def ss_def)
  then have m: "sublist mid (generateConversionTemplate code sourceLanguage targetLanguage)"
    by simp
  then show "sublist (''/* Original '' @ sourceLanguage @ '' code:'' @ [newline]
            @ join_nl (map (\<lambda>line. '' * '' @ line) (split_nl code)) @ [newline] @ '' */'')
     (generateConversionTemplate code sourceLanguage targetLanguage)"
    unfolding mid_def body_def .
  show "join_nl (map (drop 3) (map (\<lambda>line. '' * '' @ line) (split_nl code))) = code"
    by (simp only: map_drop_prefix join_split_nl)
  assume "newline \<notin> set code"
  then have "body = '' * '' @ code" by (simp add: body_def split_nl_no_newline)
  then have "mid = (''/* Original '' @ sourceLanguage @ '' code:'' @ [newline] @ '' * '') @ code @ ([newline] @ '' */'')"
    by (simp add: mid_def)
  then have "sublist code mid"
    by (simp only: sublist_appendI)
  then show "sublist code (generateConversionTemplate code sourceLanguage targetLanguage)"
    using m by (rule sublist_order.order_trans)
qed

theorem scaffold_holds_prefixed_lines_witness:
  "newline \<notin> set ''x = 1''
   \<and> sublist ''x = 1'' (generateConversionTemplate ''x = 1'' ''python'' ''go'')
   \<and> sublist (''/* Original python code:'' @ [newline] @ '' * a'' @ [newline] @ '' * b'' @ [newline] @ '' */'')
        (generateConversionTemplate (''a'' @ [newline] @ ''b'') ''python'' ''go'')"
proof -
  have h: "newline \<notin> set ''x = 1''" by code_simp
  have e: "join_nl (map (\<lambda>line. '' * '' @ line) (split_nl (''a'' @ [newline] @ ''b''))) = '' * a'' @ [newline] @ '' * b''"
    by code_simp
  from scaffold_holds_prefixed_lines[of "''python''" "''a'' @ [newline] @ ''b''" "''go''"]
       scaffold_holds_prefixed_lines[of "''python''" "''x = 1''" "''go''"] h e
  show ?thesis by (simp del: split_nl.simps join_nl.simps)
qed

text \<open>
  C3 as stated fails for a source of more than one line: the pair Python to Go goes to
  the template, and the scaffold of \<^verbatim>\<open>a\nb\<close> does not contain \<^verbatim>\<open>a\nb\<close>.
\<close>

theorem scaffold_not_verbatim:
  "performLanguageConversion (''a'' @ [newline] @ ''b'') ''python'' ''go''
     = Inr (generateConversionTemplate (''a'' @ [newline] @ ''b'') ''python'' ''go'')
   \<and> \<not> sublist (''a'' @ [newline] @ ''b'')
         (generateConversionTemplate (''a'' @ [newline] @ ''b'') ''python'' ''go'')"
  by code_simp

section \<open>The test simulator\<close>

text \<open>
  Reading a property of \<^verbatim>\<open>null\<close> or \<^verbatim>\<open>undefined\<close> throws, in the \<^verbatim>\<open>try\<close> block
  and again in the \<^verbatim>\<open>catch\<close> block, whose result reads \<^verbatim>\<open>testCase.expected\<close>. Every
  other test case gets a result, with the fields of the case.
\<close>

lemma get_field_nullish:
  "nullish v \<Longrightarrow> get_field ops v name = Inl (TypeError (cannot_read ops v name))"
  by (cases v) (simp_all add: nullish_def)

lemma get_field_ok: "\<not> nullish v \<Longrightarrow> \<exists>x. get_field ops v name = Inr x"
  by (cases v) (simp_all add: nullish_def split: option.splits)

lemma try_named_nullish: "nullish t \<Longrightarrow> \<exists>e. try_named ops name t = Inl e"
  by (simp add: try_named_def and_then_def Let_def get_field_nullish)

lemma try_case_nullish: "nullish t \<Longrightarrow> \<exists>e. try_case ops code language t = Inl e"
  using try_named_nullish[of t ops]
  by (auto simp add: try_case_def try_rest_def and_then_def split: sum.splits option.splits)

lemma run_case_nullish:
  "nullish t \<Longrightarrow> run_case ops code language t = Inl (TypeError (cannot_read ops t ''expected''))"
  using try_case_nullish[of t ops code language]
  by (auto simp add: run_case_def or_catch_def catch_case_def and_then_def get_field_nullish)

lemma try_named_fields:
  assumes "try_named ops name t = Inr r"
  shows "get_field ops t ''expected'' = Inr (expected r) \<and> get_field ops t ''input'' = Inr (input r)
         \<and> error r = None"
  using assms
  by (auto simp add: try_named_def and_then_def Let_def split: if_splits sum.splits prod.splits)

lemma try_case_fields:
  assumes "try_case ops code language t = Inr r"
  shows "get_field ops t ''expected'' = Inr (expected r) \<and> get_field ops t ''input'' = Inr (input r)
         \<and> error r = None"
proof -
  from assms obtain name where "try_named ops name t = Inr r"
    by (auto simp add: try_case_def try_rest_def and_then_def split: sum.splits option.splits)
  then show ?thesis by (rule try_named_fields)
qed

lemma catch_case_fields:
  assumes "\<not> nullish t"
  shows "\<exists>r. catch_case ops t err = Inr r \<and> get_field ops t ''expected'' = Inr (expected r)
           \<and> get_field ops t ''input'' = Inr (input r)
           \<and> \<not> passed r \<and> actual r = Null \<and> error r = Some (error_message err)"
proof -
  from assms obtain ex i where "get_field ops t ''expected'' = Inr ex" "get_field ops t ''input'' = Inr i"
    using get_field_ok by metis
  then show ?thesis by (simp add: catch_case_def and_then_def)
qed

lemma run_case_fields:
  assumes "\<not> nullish t"
  shows "\<exists>r. run_case ops code language t = Inr r \<and> get_field ops t ''expected'' = Inr (expected r)
           \<and> get_field ops t ''input'' = Inr (input r)"
proof (cases "try_case ops code language t")
  case (Inr r)
  with try_case_fields[OF Inr] show ?thesis by (simp add: run_case_def or_catch_def)
next
  case (Inl e)
  with catch_case_fields[OF assms, of ops e] show ?thesis
    by (auto simp add: run_case_def or_catch_def)
qed

lemma run_case_caught:
  assumes "\<not> nullish t" "try_case ops code language t = Inl e"
  shows "\<exists>r. run_case ops code language t = Inr r \<and> \<not> passed r \<and> actual r = Null
             \<and> error r = Some (error_message e)"
  using catch_case_fields[OF assms(1), of ops e] assms(2)
  by (auto simp add: run_case_def or_catch_def)

lemma runTestCases_fields:
  assumes "\<forall>t \<in> set testCases. \<not> nullish t"
  shows "\<exists>rs. runTestCases ops code language testCases = Inr rs \<and> length rs = length testCases
           \<and> (\<forall>i < length testCases.
                 get_field ops (testCases ! i) ''input'' = Inr (input (rs ! i))
               \<and> get_field ops (testCases ! i) ''expected'' = Inr (expected (rs ! i)))"
  using assms
proof (induction testCases)
  case Nil
  then show ?case by (simp add: runTestCases_def)
next
  case (Cons t ts)
  then obtain rs where rs: "runTestCases ops code language ts = Inr rs" "length rs = length ts"
    "\<forall>i < length ts. get_field ops (ts ! i) ''input'' = Inr (input (rs ! i))
               \<and> get_field ops (ts ! i) ''expected'' = Inr (expected (rs ! i))"
    by auto
  from Cons.prems obtain r where r: "run_case ops code language t = Inr r"
    "get_field ops t ''expected'' = Inr (expected r)" "get_field ops t ''input'' = Inr (input r)"
    using run_case_fields[of t ops code language] by auto
  have "runTestCases ops code language (t # ts) = Inr (r # rs)"
    using r(1) rs(1) by (simp add: runTestCases_def)
  moreover have "\<forall>i < length (t # ts).
                 get_field ops ((t # ts) ! i) ''input'' = Inr (input ((r # rs) ! i))
               \<and> get_field ops ((t # ts) ! i) ''expected'' = Inr (expected ((r # rs) ! i))"
    using r rs(3) by (auto simp add: nth_Cons split: nat.splits)
  ultimately show ?case using rs(2) by auto
qed

lemma runTestCases_throws:
  "(\<exists>e. runTestCases ops code language testCases = Inl e) \<longleftrightarrow> (\<exists>t \<in> set testCases. nullish t)"
proof (induction testCases)
  case Nil
  then show ?case by (simp add: runTestCases_def)
next
  case (Cons t ts)
  show ?case
  proof (cases "nullish t")
    case True
    then show ?thesis by (simp add: runTestCases_def run_case_nullish)
  next
    case False
    then obtain r where "run_case ops code language t = Inr r"
      using run_case_fields[of t ops code language] by auto
    then show ?thesis using Cons False
      by (auto simp add: runTestCases_def split: sum.splits)
  qed
qed

text \<open>
  C4. For every list of test cases \<^verbatim>\<open>runTestCases\<close> returns a list of the same length
  with the \<^verbatim>\<open>input\<close> and \<^verbatim>\<open>expected\<close> of each case. This holds for the lists without
  \<^verbatim>\<open>null\<close> and \<^verbatim>\<open>undefined\<close> (\<open>runTestCases_fields\<close>); on the list \<^verbatim>\<open>[null]\<close> no list
  is returned: the promise is rejected with the TypeError of the \<^verbatim>\<open>catch\<close> block.
\<close>

theorem null_case_rejects_batch:
  "runTestCases ops code language [Null] = Inl (TypeError (cannot_read ops Null ''expected''))"
  by (simp add: runTestCases_def run_case_nullish nullish_def)

text \<open>
  C5. An error raised by one test case is recorded on that case and the batch never
  throws. The case \<^verbatim>\<open>{}\<close> alone gives a one-element list; between two such cases,
  \<^verbatim>\<open>null\<close> rejects the whole batch and the results of the other two are lost.
\<close>

theorem null_case_breaks_isolation:
  "(\<exists>r. runTestCases ops code language [Obj []] = Inr [r])
   \<and> runTestCases ops code language [Obj [], Null, Obj []]
       = Inl (TypeError (cannot_read ops Null ''expected''))"
proof -
  obtain r where r: "run_case ops code language (Obj []) = Inr r"
    using run_case_fields[of "Obj []" ops code language] by (auto simp add: nullish_def)
  then show ?thesis
    by (simp add: runTestCases_def run_case_nullish nullish_def)
qed

section \<open>Determinism\<close>

text \<open>
  What two runs on the same arguments do not share is the store they start in. A pattern
  with the \<^verbatim>\<open>g\<close> flag remembers where its last match ended, and the same \<^verbatim>\<open>test\<close> on
  the same text gives \<^verbatim>\<open>true\<close> and then \<^verbatim>\<open>false\<close>:
\<close>

lemma test_is_stateful:
  "fst (js_bind (regexp_literal rx_parity True) (\<lambda>a.
        js_bind (RegExp_test a ''n % 2 != 0'') (\<lambda>first.
        js_bind (RegExp_test a ''n % 2 != 0'') (\<lambda>second.
        js_return (first, second)))) []) = (True, False)"
  by code_simp

text \<open>
  The runs of the program do not see this state. Every pattern they use is made by a
  literal that the run itself evaluates, so it starts with \<^verbatim>\<open>lastIndex\<close> 0 and a scan
  on it is the scan of the sections above (\<open>search_from_test\<close>, \<open>search_from_match\<close>,
  \<open>collect_substitute\<close>). In fix mode a pattern is used twice, by \<^verbatim>\<open>test\<close> and then by
  \<^verbatim>\<open>replace\<close>; \<^verbatim>\<open>test\<close> leaves the end of the first match in \<^verbatim>\<open>lastIndex\<close>, and
  \<^verbatim>\<open>replace\<close> sets it to 0 before it scans and leaves it at 0
  (\<open>apply_rule_run_pure\<close>). So each run gives what the function of the earlier sections
  gives, whatever store it starts in.
\<close>

lemma fst_js_bind: "fst (js_bind m f h) = fst (f (fst (m h)) (snd (m h)))"
  by (simp add: js_bind_def split: prod.splits)

lemma search_from_found:
  assumes "search_from r S i = Some (j, n, caps)"
  shows "i \<le> j \<and> j \<le> length S \<and> rx_exec r (rev (take j S)) (drop j S) = Some (n, caps)"
  using assms
proof (induction r S i rule: search_from.induct)
  case (1 r S i)
  from "1.prems" have le: "\<not> length S < i"
    by (auto simp add: search_from.simps[of r S i] split: if_splits)
  show ?case
  proof (cases "rx_exec r (rev (take i S)) (drop i S)")
    case None
    with "1.prems" le have "search_from r S (Suc i) = Some (j, n, caps)"
      by (simp add: search_from.simps[of r S i])
    from "1.IH"[OF le None this] show ?thesis by simp
  next
    case (Some a)
    with "1.prems" le show ?thesis
      by (auto simp add: search_from.simps[of r S i] split: prod.splits)
  qed
qed

lemma search_from_beyond: "length S < i \<Longrightarrow> search_from r S i = None"
  by (simp add: search_from.simps[of r S i])

lemma search_from_step:
  assumes "i \<le> length S"
  shows "search_from r S i =
     (case rx_exec r (rev (take i S)) (drop i S) of
        Some (n, caps) \<Rightarrow> Some (i, n, caps)
      | None \<Rightarrow> search_from r S (Suc i))"
  using assms by (simp add: search_from.simps[of r S i])

lemma drop_take_Suc:
  assumes "i < length S"
  shows "drop i S = S ! i # drop (Suc i) S" and "rev (take (Suc i) S) = S ! i # rev (take i S)"
  using assms by (simp_all add: Cons_nth_drop_Suc take_Suc_conv_app_nth)

lemma search_from_test:
  "i \<le> length S \<Longrightarrow> (search_from r S i \<noteq> None) = test_from r (rev (take i S)) (drop i S)"
proof (induction r S i rule: search_from.induct)
  case (1 r S i)
  show ?case
  proof (cases "i = length S")
    case True
    then show ?thesis
      by (simp add: search_from_step search_from_beyond split: option.splits)
  next
    case False
    with "1.prems" have lt: "i < length S" by simp
    show ?thesis
    proof (cases "rx_exec r (rev (take i S)) (drop i S)")
      case None
      from "1.prems" have "\<not> length S < i" by simp
      from "1.IH"[OF this None] lt
      have "(search_from r S (Suc i) \<noteq> None)
          = test_from r (rev (take (Suc i) S)) (drop (Suc i) S)" by simp
      with None lt show ?thesis
        by (simp add: search_from_step drop_take_Suc[OF lt])
    next
      case (Some a)
      with lt show ?thesis
        by (simp add: search_from_step drop_take_Suc(1)[OF lt] split: prod.splits)
    qed
  qed
qed

lemma search_from_match:
  "i \<le> length S \<Longrightarrow>
   map_option (\<lambda>(index, n, caps). caps) (search_from r S i)
     = match_from r (rev (take i S)) (drop i S)"
proof (induction r S i rule: search_from.induct)
  case (1 r S i)
  show ?case
  proof (cases "i = length S")
    case True
    then show ?thesis
      by (auto simp add: search_from_step search_from_beyond split: option.splits)
  next
    case False
    with "1.prems" have lt: "i < length S" by simp
    show ?thesis
    proof (cases "rx_exec r (rev (take i S)) (drop i S)")
      case None
      from "1.prems" have "\<not> length S < i" by simp
      from "1.IH"[OF this None] lt
      have "map_option (\<lambda>(index, n, caps). caps) (search_from r S (Suc i))
          = match_from r (rev (take (Suc i) S)) (drop (Suc i) S)" by simp
      with None lt show ?thesis
        by (simp add: search_from_step drop_take_Suc[OF lt])
    next
      case (Some a)
      with lt show ?thesis
        by (simp add: search_from_step drop_take_Suc(1)[OF lt] split: prod.splits)
    qed
  qed
qed

lemma search_from_skip:
  "i \<le> length S \<Longrightarrow>
   replace_from r g (rev (take i S)) (drop i S) =
     (case search_from r S i of
        None \<Rightarrow> drop i S
      | Some (j, n, caps) \<Rightarrow> take (j - i) (drop i S) @ replace_from r g (rev (take j S)) (drop j S))"
proof (induction r S i rule: search_from.induct)
  case (1 r S i)
  show ?case
  proof (cases "i = length S")
    case True
    then show ?thesis
      by (auto simp add: search_from_step search_from_beyond split: option.splits)
  next
    case False
    with "1.prems" have lt: "i < length S" by simp
    show ?thesis
    proof (cases "rx_exec r (rev (take i S)) (drop i S)")
      case None
      from "1.prems" have "\<not> length S < i" by simp
      from "1.IH"[OF this None] lt
      have ih: "replace_from r g (rev (take (Suc i) S)) (drop (Suc i) S) =
         (case search_from r S (Suc i) of
            None \<Rightarrow> drop (Suc i) S
          | Some (j, n, caps) \<Rightarrow>
              take (j - Suc i) (drop (Suc i) S) @ replace_from r g (rev (take j S)) (drop j S))"
        by simp
      have s: "search_from r S i = search_from r S (Suc i)"
        using None lt by (simp add: search_from_step)
      have "replace_from r g (rev (take i S)) (drop i S)
          = S ! i # replace_from r g (rev (take (Suc i) S)) (drop (Suc i) S)"
        using None by (simp add: drop_take_Suc[OF lt])
      also have "\<dots> = (case search_from r S i of
            None \<Rightarrow> drop i S
          | Some (j, n, caps) \<Rightarrow>
              take (j - i) (drop i S) @ replace_from r g (rev (take j S)) (drop j S))"
      proof (cases "search_from r S (Suc i)")
        case None
        with ih s show ?thesis by (simp add: drop_take_Suc(1)[OF lt])
      next
        case (Some a)
        obtain j n caps where a: "a = (j, n, caps)" by (cases a)
        from search_from_found[OF Some[unfolded a]] have "Suc i \<le> j" by simp
        then have "take (j - i) (drop i S) = S ! i # take (j - Suc i) (drop (Suc i) S)"
          by (simp add: drop_take_Suc(1)[OF lt] Suc_diff_le take_Cons')
        with ih s Some a show ?thesis by simp
      qed
      finally show ?thesis .
    next
      case (Some a)
      with lt show ?thesis
        by (simp add: search_from_step split: prod.splits)
    qed
  qed
qed

lemma exec_global:
  assumes "global R"
  shows "RegExpBuiltinExec R S =
     (case search_from (source R) S (lastIndex R) of
        None \<Rightarrow> (None, R\<lparr>lastIndex := 0\<rparr>)
      | Some (j, n, caps) \<Rightarrow> (Some (j, n, caps), R\<lparr>lastIndex := j + n\<rparr>))"
  using assms by (simp add: RegExpBuiltinExec_def split: option.splits)

lemma exec_not_global:
  assumes "\<not> global R"
  shows "RegExpBuiltinExec R S = (search_from (source R) S 0, R)"
  using assms by (simp add: RegExpBuiltinExec_def split: option.splits)

lemma replace_from_at:
  assumes "j \<le> length S" "rx_exec r (rev (take j S)) (drop j S) = Some (n, caps)"
  shows "replace_from r g (rev (take j S)) (drop j S) =
     g (take n (drop j S)) caps (take j S) (drop (j + n) S) @
     (if n = 0
      then take 1 (drop j S) @
           (if Suc j \<le> length S
            then replace_from r g (rev (take (Suc j) S)) (drop (Suc j) S) else [])
      else replace_from r g (rev (take (j + n) S)) (drop (j + n) S))"
proof (cases "j = length S")
  case True
  from rx_exec_sound[OF assms(2)] True have "n = 0" by simp
  with True assms(2) show ?thesis by simp
next
  case False
  with assms(1) have lt: "j < length S" by simp
  note d = drop_take_Suc[OF lt]
  show ?thesis
  proof (cases "n = 0")
    case True
    with assms(2) lt show ?thesis by (simp add: d)
  next
    case False
    have "rev (take n (drop j S)) @ rev (take j S) = rev (take (j + n) S)"
      by (simp add: take_add)
    moreover have "drop n (drop j S) = drop (j + n) S" by (simp add: add.commute)
    ultimately have "replace_from r g (rev (take n (S ! j # drop (Suc j) S)) @ rev (take j S))
        (drop n (S ! j # drop (Suc j) S)) = replace_from r g (rev (take (j + n) S)) (drop (j + n) S)"
      unfolding d(1)[symmetric] by simp
    with assms(2) False show ?thesis
      unfolding d(1) replace_from.simps by (simp add: d(1)[symmetric] add.commute)
  qed
qed

lemma take_take_drop:
  assumes "k \<le> i" "i \<le> j"
  shows "take (i - k) (drop k S) @ take (j - i) (drop i S) = take (j - k) (drop k S)"
proof -
  have "take ((i - k) + (j - i)) (drop k S)
      = take (i - k) (drop k S) @ take (j - i) (drop (i - k) (drop k S))"
    by (rule take_add)
  with assms show ?thesis by simp
qed

lemma collect_substitute:
  assumes pure: "\<And>matched caps pre post h. fst (f matched caps pre post h) = g matched caps pre post"
  shows "global R \<Longrightarrow> lastIndex R \<le> Suc (length S) \<Longrightarrow> k \<le> lastIndex R \<Longrightarrow>
     snd (collect_results R S) = R\<lparr>lastIndex := 0\<rparr> \<and>
     fst (substitute S (fst (collect_results R S)) f k out h) =
       out @ take (lastIndex R - k) (drop k S) @
       (if lastIndex R \<le> length S
        then replace_from (source R) g (rev (take (lastIndex R) S)) (drop (lastIndex R) S)
        else [])"
proof (induction "Suc (length S) - lastIndex R" arbitrary: R k out h rule: less_induct)
  case less
  define i where "i = lastIndex R"
  define r where "r = source R"
  note gl = less.prems(1)
  have ki: "k \<le> i" using less.prems(3) by (simp add: i_def)
  show ?case
  proof (cases "search_from r S i")
    case None
    then have c: "collect_results R S = ([], R\<lparr>lastIndex := 0\<rparr>)"
      using gl by (simp add: collect_results.simps[of R S] exec_global i_def r_def)
    have "take (i - k) (drop k S) @
        (if i \<le> length S then replace_from r g (rev (take i S)) (drop i S) else []) = drop k S"
    proof (cases "i \<le> length S")
      case True
      from search_from_skip[OF True, of r g] None
      have "replace_from r g (rev (take i S)) (drop i S) = drop i S" by simp
      moreover have "take (i - k) (drop k S) @ drop i S = drop k S"
      proof -
        have "i - k + k = i" using ki by simp
        with append_take_drop_id[of "i - k" "drop k S"] show ?thesis by simp
      qed
      ultimately show ?thesis using True by simp
    next
      case False
      then show ?thesis by simp
    qed
    with c show ?thesis
      unfolding i_def[symmetric] r_def[symmetric] by (simp add: js_return_def)
  next
    case (Some a)
    obtain j n caps where a: "a = (j, n, caps)" by (cases a)
    note s = Some[unfolded a]
    from search_from_found[OF s] have ij: "i \<le> j" and jl: "j \<le> length S"
      and e: "rx_exec r (rev (take j S)) (drop j S) = Some (n, caps)" by simp_all
    from rx_exec_sound[OF e] have "n \<le> length S - j" by simp
    with jl have nl: "j + n \<le> length S" by arith
    define R1 where "R1 = R\<lparr>lastIndex := (if n = 0 then Suc j else j + n)\<rparr>"
    have R1: "global R1" "source R1 = r" "lastIndex R1 = (if n = 0 then Suc j else j + n)"
      "R1\<lparr>lastIndex := 0\<rparr> = R\<lparr>lastIndex := 0\<rparr>"
      using gl by (simp_all add: R1_def r_def)
    have c: "collect_results R S =
        ((j, n, caps) # fst (collect_results R1 S), snd (collect_results R1 S))"
      using gl s
      by (simp add: collect_results.simps[of R S] exec_global i_def[symmetric] r_def[symmetric]
          R1_def split: prod.splits)
    have "j < lastIndex R1" by (simp add: R1(3))
    with ij jl have m: "Suc (length S) - lastIndex R1 < Suc (length S) - lastIndex R"
      unfolding i_def by arith
    have b1: "lastIndex R1 \<le> Suc (length S)" using jl nl by (simp add: R1(3))
    have b2: "j + n \<le> lastIndex R1" by (simp add: R1(3))
    note ih = less.hyps[OF m R1(1) b1 b2]
    have first: "snd (collect_results R S) = R\<lparr>lastIndex := 0\<rparr>"
      using ih[of "[]" h] c R1(4) by simp
    define repl where "repl = g (take n (drop j S)) caps (take j S) (drop (j + n) S)"
    define h' where "h' = snd (f (take n (drop j S)) caps (take j S) (drop (j + n) S) h)"
    have "fst (substitute S (fst (collect_results R S)) f k out h)
        = fst (substitute S (fst (collect_results R1 S)) f (j + n)
                 (out @ take (j - k) (drop k S) @ repl) h')"
      using ki ij by (simp add: c fst_js_bind pure repl_def h'_def)
    also have "\<dots> = (out @ take (j - k) (drop k S) @ repl) @
        take (lastIndex R1 - (j + n)) (drop (j + n) S) @
        (if lastIndex R1 \<le> length S
         then replace_from r g (rev (take (lastIndex R1) S)) (drop (lastIndex R1) S)
         else [])"
      using ih[of "out @ take (j - k) (drop k S) @ repl" h'] by (simp add: R1(2))
    also have "\<dots> = out @ take (j - k) (drop k S) @ replace_from r g (rev (take j S)) (drop j S)"
      unfolding replace_from_at[OF jl e, of g] repl_def[symmetric]
      by (cases "n = 0") (simp_all add: R1(3) nl)
    also have "\<dots> = out @ take (i - k) (drop k S) @ replace_from r g (rev (take i S)) (drop i S)"
    proof -
      from ij jl have il: "i \<le> length S" by simp
      from search_from_skip[OF il, of r g] s
      have "replace_from r g (rev (take i S)) (drop i S)
          = take (j - i) (drop i S) @ replace_from r g (rev (take j S)) (drop j S)" by simp
      with take_take_drop[OF ki ij, of S] show ?thesis by (metis append.assoc)
    qed
    finally have second: "fst (substitute S (fst (collect_results R S)) f k out h) =
        out @ take (i - k) (drop k S) @ replace_from r g (rev (take i S)) (drop i S)" .
    from ij jl have "i \<le> length S" by simp
    with first second show ?thesis
      unfolding i_def[symmetric] r_def[symmetric] by simp
  qed
qed

lemma substitute_pure:
  "snd (substitute S rs (\<lambda>m c p q. js_return (g m c p q)) k out h) = h"
  by (induction rs arbitrary: k out) (auto simp add: js_return_def js_bind_def)

lemma String_replace_global:
  assumes "\<And>matched caps pre post h. fst (f matched caps pre post h) = g matched caps pre post"
    and "global (h ! a)"
  shows "fst (String_replace S a f h) = rx_replace_all (source (h ! a)) g S"
proof -
  define R where "R = (h ! a)\<lparr>lastIndex := 0\<rparr>"
  have R: "global R" "lastIndex R = 0" "source R = source (h ! a)"
    using assms(2) by (simp_all add: R_def)
  obtain rs R' where c: "collect_results R S = (rs, R')" by (cases "collect_results R S")
  from collect_substitute[where f = f and g = g and R = R and S = S and k = 0 and out = "[]"
      and h = "h[a := R']", OF assms(1)] R c
  have "fst (substitute S rs f 0 [] (h[a := R'])) = replace_from (source (h ! a)) g [] S"
    by auto
  then show ?thesis
    using assms(2) c by (simp add: String_replace_def R_def[symmetric] rx_replace_all_def)
qed

lemma String_replace_template_global:
  assumes "global (h ! a)"
  shows "String_replace_template S a t h
       = (replace_rx (source (h ! a)) t S, h[a := (h ! a)\<lparr>lastIndex := 0\<rparr>])"
proof -
  define g where "g = template (source (h ! a)) t"
  define f :: js_replacer
    where "f = (\<lambda>matched caps pre post. js_return (g matched caps pre post))"
  define R where "R = (h ! a)\<lparr>lastIndex := 0\<rparr>"
  have R: "global R" "lastIndex R = 0" "R\<lparr>lastIndex := 0\<rparr> = R"
    using assms by (simp_all add: R_def)
  have p: "\<And>matched caps pre post h'. fst (f matched caps pre post h') = g matched caps pre post"
    by (simp add: f_def js_return_def)
  obtain rs R' where c: "collect_results R S = (rs, R')" by (cases "collect_results R S")
  from collect_substitute[where f = f and g = g and R = R and S = S and k = 0 and out = "[]"
      and h = h, OF p] R c
  have R': "R' = R" by auto
  have "fst (String_replace S a f h) = replace_rx (source (h ! a)) t S"
    unfolding replace_rx_def g_def[symmetric] by (rule String_replace_global[OF p assms])
  moreover have "snd (String_replace S a f h) = h[a := R]"
    using assms c R' by (simp add: String_replace_def R_def[symmetric] f_def substitute_pure)
  ultimately show ?thesis
    by (simp add: String_replace_template_def f_def[symmetric] g_def[symmetric] R_def
        prod_eq_iff)
qed

lemma RegExp_test_fresh:
  assumes "global (h ! a)" "lastIndex (h ! a) = 0"
  shows "\<exists>e. RegExp_test a S h = (rx_test (source (h ! a)) S, h[a := (h ! a)\<lparr>lastIndex := e\<rparr>])
           \<and> (\<not> rx_test (source (h ! a)) S \<longrightarrow> e = 0)"
proof (cases "search_from (source (h ! a)) S 0")
  case None
  with search_from_test[of 0 S "source (h ! a)"] have "\<not> rx_test (source (h ! a)) S"
    by (simp add: rx_test_def)
  with None assms show ?thesis
    by (intro exI[of _ 0])
       (simp add: RegExp_test_def RegExpExec_def js_bind_def js_return_def exec_global)
next
  case (Some x)
  obtain j n caps where x: "x = (j, n, caps)" by (cases x)
  from Some search_from_test[of 0 S "source (h ! a)"] have "rx_test (source (h ! a)) S"
    by (simp add: rx_test_def)
  with Some x assms show ?thesis
    by (intro exI[of _ "j + n"])
       (simp add: RegExp_test_def RegExpExec_def js_bind_def js_return_def exec_global)
qed

lemma String_match_plain:
  assumes "\<not> global (h ! a)"
  shows "String_match S a h = (rx_match (source (h ! a)) S, h[a := h ! a])"
  using assms search_from_match[of 0 S "source (h ! a)"]
  by (simp add: String_match_def RegExpExec_def js_bind_def js_return_def exec_not_global
      rx_match_def)

lemma replace_literal_pure: "fst (replace_literal r t S h) = replace_rx r t S"
  by (simp add: replace_literal_def js_bind_def regexp_literal_def
      String_replace_template_global)

lemma replace_literal_with_pure:
  assumes "\<And>matched caps pre post h. fst (f matched caps pre post h) = g matched caps pre post"
  shows "fst (replace_literal_with r f S h) = rx_replace_all r g S"
  using String_replace_global[OF assms, of "h @ [\<lparr>source = r, global = True, lastIndex = 0\<rparr>]"
      "length h" S]
  by (simp add: replace_literal_with_def js_bind_def regexp_literal_def)

lemma apply_rule_run_pure:
  assumes "a < length h" "h ! a = \<lparr>source = r, global = True, lastIndex = 0\<rparr>"
  shows "apply_rule_run s (a, t, c) h
       = (apply_rule s \<lparr>pattern = r, replacement = t, comment = c\<rparr>, h)"
proof -
  from RegExp_test_fresh[of h a s] assms(2) obtain e where
    e: "RegExp_test a s h = (rx_test r s, h[a := (h ! a)\<lparr>lastIndex := e\<rparr>])"
       "\<not> rx_test r s \<longrightarrow> e = 0" by auto
  show ?thesis
  proof (cases "rx_test r s")
    case False
    with e assms show ?thesis
      by (simp add: apply_rule_run_def apply_rule_def js_bind_def js_return_def
          list_update_same_conv)
  next
    case True
    define h1 where "h1 = h[a := (h ! a)\<lparr>lastIndex := e\<rparr>]"
    have h1: "h1 ! a = \<lparr>source = r, global = True, lastIndex = e\<rparr>"
      using assms by (simp add: h1_def)
    have "String_replace_template s a t h1 = (replace_rx r t s, h)"
      using String_replace_template_global[of h1 a s t] h1 assms
      by (simp add: h1_def list_update_same_conv)
    with e(1) True show ?thesis
      by (simp add: apply_rule_run_def apply_rule_def js_bind_def js_return_def h1_def Let_def)
  qed
qed

lemma for_each_rules:
  assumes "\<forall>x \<in> set rules. fst x < length h
             \<and> h ! fst x = \<lparr>source = fst (snd x), global = True, lastIndex = 0\<rparr>"
  shows "for_each apply_rule_run (map (\<lambda>x. (fst x, snd (snd x))) rules) s h
       = (foldl apply_rule s
            (map (\<lambda>x. \<lparr>pattern = fst (snd x), replacement = fst (snd (snd x)),
                        comment = snd (snd (snd x))\<rparr>) rules), h)"
  using assms
proof (induction rules arbitrary: s)
  case Nil
  then show ?case by (simp add: js_return_def)
next
  case (Cons x xs)
  obtain a r t c where x: "x = (a, r, t, c)" by (cases x) auto
  from Cons.prems x have "a < length h" "h ! a = \<lparr>source = r, global = True, lastIndex = 0\<rparr>"
    by simp_all
  from apply_rule_run_pure[OF this] Cons.IH Cons.prems x show ?case
    by (simp add: js_bind_def)
qed

lemma fixLogicalErrors_run_pure:
  "fst (fixLogicalErrors_run code language h) = fixLogicalErrors code language"
proof -
  define h6 where "h6 = h @
     [\<lparr>source = rx_parity, global = True, lastIndex = 0\<rparr>,
      \<lparr>source = rx_parity_strict, global = True, lastIndex = 0\<rparr>,
      \<lparr>source = rx_off_by_one, global = True, lastIndex = 0\<rparr>,
      \<lparr>source = rx_bounds, global = True, lastIndex = 0\<rparr>,
      \<lparr>source = rx_and_true, global = True, lastIndex = 0\<rparr>,
      \<lparr>source = rx_or_false, global = True, lastIndex = 0\<rparr>]"
  define rules where "rules =
     [(length h, rx_parity, ''n % 2 == 0'', ''Fixed: even numbers have remainder 0''),
      (length h + 1, rx_parity_strict, ''n % 2 === 0'', ''Fixed: even numbers have remainder 0''),
      (length h + 2, rx_off_by_one, ''for (let i = 0; i < $1.length'', ''Fixed: off-by-one error''),
      (length h + 3, rx_bounds, ''[$1.length - 1]'', ''Fixed: array index out of bounds''),
      (length h + 4, rx_and_true, [], ''Simplified: && true is redundant''),
      (length h + 5, rx_or_false, [], ''Simplified: || false is redundant'')]"
  have e: "errorPatterns_run h = (map (\<lambda>x. (fst x, snd (snd x))) rules, h6)"
    by (simp add: errorPatterns_run_def js_bind_def js_return_def regexp_literal_def rules_def
        h6_def)
  have "\<forall>x \<in> set rules. fst x < length h6
             \<and> h6 ! fst x = \<lparr>source = fst (snd x), global = True, lastIndex = 0\<rparr>"
    by (simp add: rules_def h6_def nth_append)
  from for_each_rules[OF this, of code] e show ?thesis
    by (simp add: fixLogicalErrors_run_def js_bind_def fixLogicalErrors_def errorPatterns_def
        rules_def)
qed

lemma fst_js_return: "fst (js_return x h) = x"
  by (simp add: js_return_def)

lemma fst_returned: "fst (returned m h) = Inr (fst (m h))"
  by (simp add: returned_def fst_js_bind fst_js_return)

lemmas run_simps = fst_js_bind fst_js_return fst_returned replace_literal_pure

lemma py_ts_signature_run_pure:
  "fst (py_ts_signature_run matched caps pre post h) = py_ts_signature matched caps pre post"
  by (simp add: py_ts_signature_run_def py_ts_signature_def Let_def run_simps)

lemma py_java_signature_run_pure:
  "fst (py_java_signature_run matched caps pre post h) = py_java_signature matched caps pre post"
  by (simp add: py_java_signature_run_def py_java_signature_def Let_def run_simps)

lemma py_cpp_signature_run_pure:
  "fst (py_cpp_signature_run matched caps pre post h) = py_cpp_signature matched caps pre post"
  by (simp add: py_cpp_signature_run_def py_cpp_signature_def Let_def run_simps)

lemma js_ts_signature_run_pure:
  "fst (js_ts_signature_run matched caps pre post h) = js_ts_signature matched caps pre post"
  by (simp add: js_ts_signature_run_def js_ts_signature_def Let_def run_simps)

lemmas signature_simps =
  replace_literal_with_pure[of py_ts_signature_run py_ts_signature, OF py_ts_signature_run_pure]
  replace_literal_with_pure[of py_java_signature_run py_java_signature, OF py_java_signature_run_pure]
  replace_literal_with_pure[of py_cpp_signature_run py_cpp_signature, OF py_cpp_signature_run_pure]
  replace_literal_with_pure[of js_ts_signature_run js_ts_signature, OF js_ts_signature_run_pure]

lemma py_to_js_rewrite_run_pure: "fst (py_to_js_rewrite_run code h) = py_to_js_rewrite code"
  by (simp add: py_to_js_rewrite_run_def py_to_js_rewrite_def run_simps)

lemma convertPythonToJavaScript_run_pure:
  "fst (convertPythonToJavaScript_run code h) = convertPythonToJavaScript code"
  by (simp add: convertPythonToJavaScript_run_def convertPythonToJavaScript_def run_simps
      py_to_js_rewrite_run_pure)

lemma convertPythonToTypeScript_run_pure:
  "fst (convertPythonToTypeScript_run code h) = convertPythonToTypeScript code"
  by (simp add: convertPythonToTypeScript_run_def convertPythonToTypeScript_def run_simps
      convertPythonToJavaScript_run_pure signature_simps split: sum.splits)

lemma convertPythonToJava_run_pure:
  "fst (convertPythonToJava_run code h) = convertPythonToJava code"
  by (simp add: convertPythonToJava_run_def convertPythonToJava_def py_to_java_rewrite_run_def
      py_to_java_rewrite_def run_simps signature_simps)

lemma convertPythonToCpp_run_pure:
  "fst (convertPythonToCpp_run code h) = convertPythonToCpp code"
  by (simp add: convertPythonToCpp_run_def convertPythonToCpp_def py_to_cpp_rewrite_run_def
      py_to_cpp_rewrite_def run_simps signature_simps)

lemma convertJavaScriptToPython_run_pure:
  "fst (convertJavaScriptToPython_run code h) = convertJavaScriptToPython code"
  by (simp add: convertJavaScriptToPython_run_def convertJavaScriptToPython_def run_simps)

lemma convertJavaScriptToTypeScript_run_pure:
  "fst (convertJavaScriptToTypeScript_run code h) = convertJavaScriptToTypeScript code"
  by (simp add: convertJavaScriptToTypeScript_run_def convertJavaScriptToTypeScript_def
      run_simps signature_simps)

lemma convertJavaToPython_run_pure:
  "fst (convertJavaToPython_run code h) = convertJavaToPython code"
  by (simp add: convertJavaToPython_run_def convertJavaToPython_def run_simps)

lemma convertCppToPython_run_pure:
  "fst (convertCppToPython_run code h) = convertCppToPython code"
  by (simp add: convertCppToPython_run_def convertCppToPython_def run_simps)

lemma performLanguageConversion_run_pure:
  "fst (performLanguageConversion_run code sourceLanguage targetLanguage h)
     = performLanguageConversion code sourceLanguage targetLanguage"
  by (simp add: performLanguageConversion_run_def performLanguageConversion_def Let_def
      fst_returned fst_js_return
      convertPythonToJavaScript_run_pure convertPythonToTypeScript_run_pure
      convertPythonToJava_run_pure convertPythonToCpp_run_pure
      convertJavaScriptToPython_run_pure convertJavaScriptToTypeScript_run_pure
      convertJavaToPython_run_pure convertCppToPython_run_pure)

lemma convertCode_run_pure:
  "fst (convertCode_run code sourceLanguage targetLanguage m h)
     = convertCode code sourceLanguage targetLanguage m"
  by (simp add: convertCode_run_def convertCode_def fst_returned fixLogicalErrors_run_pure
      performLanguageConversion_run_pure)

lemma extractFunctionName_run_pure:
  "fst (extractFunctionName_run ops code language h) = extractFunctionName ops code language"
proof -
  define h5 where "h5 = h @
     [\<lparr>source = seqs [Str ''def'', ws1, Grp 1 wd1], global = False, lastIndex = 0\<rparr>,
      \<lparr>source = seqs [Str ''function'', ws1, Grp 1 wd1], global = False, lastIndex = 0\<rparr>,
      \<lparr>source = seqs [Str ''function'', ws1, Grp 1 wd1], global = False, lastIndex = 0\<rparr>,
      \<lparr>source = seqs [Str ''public'', ws1, Str ''static'', ws1, wd1, ws1, Grp 1 wd1],
        global = False, lastIndex = 0\<rparr>,
      \<lparr>source = seqs [wd1, ws1, Grp 1 wd1, ws0, Str ''(''], global = False, lastIndex = 0\<rparr>]"
  have m: "fst (String_match code (length h + k) h5) = rx_match (source (h5 ! (length h + k))) code"
    if "k < 5" for k
  proof -
    from that have "\<not> global (h5 ! (length h + k))"
      by (auto simp add: h5_def nth_append nth_Cons' less_Suc_eq numeral_eq_Suc)
    from String_match_plain[OF this] show ?thesis by simp
  qed
  have e: "extractFunctionName_run ops code language h =
     (case map_of [(''python'', length h), (''javascript'', length h + 1),
                   (''typescript'', length h + 2), (''java'', length h + 3),
                   (''cpp'', length h + 4)] language of
        Some pattern' \<Rightarrow>
          js_bind (String_match code pattern') (\<lambda>match'.
            js_return
              (Inr (Some (case match' of Some caps \<Rightarrow> capture caps 1 | None \<Rightarrow> ''unknown''))))
            h5
      | None \<Rightarrow>
          js_return
            (case inherited_name ops language code of
               Some outcome \<Rightarrow> outcome
             | None \<Rightarrow> Inr (Some ''unknown'')) h5)"
    by (simp add: extractFunctionName_run_def js_bind_def regexp_literal_def h5_def
        eval_nat_numeral split: option.splits)
  show ?thesis
    unfolding e
    using m[of 0] m[of 1] m[of 2] m[of 3] m[of 4]
    by (simp add: extractFunctionName_def patterns_def run_simps h5_def nth_append)
qed

lemma run_case_run_pure:
  "fst (run_case_run ops code language testCase h) = run_case ops code language testCase"
  by (simp add: run_case_run_def run_case_def try_case_run_def try_case_def run_simps
      extractFunctionName_run_pure)

lemma map_throwing_run_pure:
  assumes "\<And>x h. fst (f x h) = g x"
  shows "fst (map_throwing_run f xs h) = map_throwing g xs"
proof (induction xs arbitrary: h)
  case Nil
  show ?case by (simp add: fst_js_return)
next
  case (Cons x xs)
  show ?case
    by (simp add: fst_js_bind fst_js_return assms Cons.IH split: sum.splits)
qed

lemma runTestCases_run_pure:
  "fst (runTestCases_run ops code language testCases h)
     = runTestCases ops code language testCases"
  unfolding runTestCases_run_def runTestCases_def
  by (rule map_throwing_run_pure) (rule run_case_run_pure)

text \<open>
  C8. Two runs of \<^verbatim>\<open>convertCode\<close> on the same code, languages and mode settle with the
  same outcome, whatever stores they start in and however long each waited, and so do two
  runs of \<^verbatim>\<open>runTestCases\<close> on the same code, language and test cases.
\<close>

theorem runs_agree:
  "(convertCode_settles code sourceLanguage targetLanguage m h1 elapsed1 out1 \<longrightarrow>
    convertCode_settles code sourceLanguage targetLanguage m h2 elapsed2 out2 \<longrightarrow> out1 = out2)
   \<and> (runTestCases_settles ops testedCode language testCases s1 waited1 res1 \<longrightarrow>
      runTestCases_settles ops testedCode language testCases s2 waited2 res2 \<longrightarrow> res1 = res2)"
proof (intro conjI impI)
  assume "convertCode_settles code sourceLanguage targetLanguage m h1 elapsed1 out1"
    and "convertCode_settles code sourceLanguage targetLanguage m h2 elapsed2 out2"
  then obtain h1' h2' where
    "convertCode_run code sourceLanguage targetLanguage m h1 = (out1, h1')"
    "convertCode_run code sourceLanguage targetLanguage m h2 = (out2, h2')"
    by (auto elim!: convertCode_settles.cases)
  with convertCode_run_pure[of code sourceLanguage targetLanguage m h1]
    convertCode_run_pure[of code sourceLanguage targetLanguage m h2]
  show "out1 = out2" by simp
next
  assume "runTestCases_settles ops testedCode language testCases s1 waited1 res1"
    and "runTestCases_settles ops testedCode language testCases s2 waited2 res2"
  then obtain s1' s2' where
    "runTestCases_run ops testedCode language testCases s1 = (res1, s1')"
    "runTestCases_run ops testedCode language testCases s2 = (res2, s2')"
    by (auto elim!: runTestCases_settles.cases)
  with runTestCases_run_pure[of ops testedCode language testCases s1]
    runTestCases_run_pure[of ops testedCode language testCases s2]
  show "res1 = res2" by simp
qed

theorem runs_agree_witness:
  "convertCode_settles ''return n % 2 != 0'' ''python'' ''javascript'' Fix [] 1500
     (Inr ''return n % 2 == 0  // Fixed: even numbers have remainder 0'')
   \<and> convertCode_settles ''return n % 2 != 0'' ''python'' ''javascript'' Fix
       [\<lparr>source = rx_parity, global = True, lastIndex = 7\<rparr>] 1720
     (Inr ''return n % 2 == 0  // Fixed: even numbers have remainder 0'')
   \<and> (\<forall>ops :: int js_ops.
        runTestCases_settles ops ''def is_even(n):'' ''python''
          [Obj [(''input'', Arr [Num 2]), (''expected'', Bool True)]] [] 1000
          (Inr [\<lparr>passed = strict_eq ops (Bool (rem2_is_zero ops (Num 2))) (Bool True),
                 actual = Bool (rem2_is_zero ops (Num 2)), expected = Bool True,
                 input = Arr [Num 2], error = None\<rparr>])
      \<and> runTestCases_settles ops ''def is_even(n):'' ''python''
          [Obj [(''input'', Arr [Num 2]), (''expected'', Bool True)]]
          [\<lparr>source = seqs [Str ''def'', ws1, Grp 1 wd1], global = False, lastIndex = 3\<rparr>] 1001
          (Inr [\<lparr>passed = strict_eq ops (Bool (rem2_is_zero ops (Num 2))) (Bool True),
                 actual = Bool (rem2_is_zero ops (Num 2)), expected = Bool True,
                 input = Arr [Num 2], error = None\<rparr>]))"
proof -
  have f: "fst (convertCode_run ''return n % 2 != 0'' ''python'' ''javascript'' Fix [])
      = Inr ''return n % 2 == 0  // Fixed: even numbers have remainder 0''"
    by code_simp
  have a1: "convertCode_settles ''return n % 2 != 0'' ''python'' ''javascript'' Fix [] 1500
     (Inr ''return n % 2 == 0  // Fixed: even numbers have remainder 0'')"
    using convert_run[of 1500 "''return n % 2 != 0''" "''python''" "''javascript''" Fix "[]",
        OF _ surjective_pairing] by (simp only: f)
  have a2: "convertCode_settles ''return n % 2 != 0'' ''python'' ''javascript'' Fix
       [\<lparr>source = rx_parity, global = True, lastIndex = 7\<rparr>] 1720
       (fst (convertCode_run ''return n % 2 != 0'' ''python'' ''javascript'' Fix
          [\<lparr>source = rx_parity, global = True, lastIndex = 7\<rparr>]))"
    by (rule convert_run[OF _ surjective_pairing]) simp
  from runs_agree[THEN conjunct1, rule_format, OF a1 a2] a2
  have a3: "convertCode_settles ''return n % 2 != 0'' ''python'' ''javascript'' Fix
       [\<lparr>source = rx_parity, global = True, lastIndex = 7\<rparr>] 1720
     (Inr ''return n % 2 == 0  // Fixed: even numbers have remainder 0'')"
    by simp
  have b: "runTestCases_settles ops ''def is_even(n):'' ''python''
          [Obj [(''input'', Arr [Num 2]), (''expected'', Bool True)]] [] 1000
          (Inr [\<lparr>passed = strict_eq ops (Bool (rem2_is_zero ops (Num 2))) (Bool True),
                 actual = Bool (rem2_is_zero ops (Num 2)), expected = Bool True,
                 input = Arr [Num 2], error = None\<rparr>])
      \<and> runTestCases_settles ops ''def is_even(n):'' ''python''
          [Obj [(''input'', Arr [Num 2]), (''expected'', Bool True)]]
          [\<lparr>source = seqs [Str ''def'', ws1, Grp 1 wd1], global = False, lastIndex = 3\<rparr>] 1001
          (Inr [\<lparr>passed = strict_eq ops (Bool (rem2_is_zero ops (Num 2))) (Bool True),
                 actual = Bool (rem2_is_zero ops (Num 2)), expected = Bool True,
                 input = Arr [Num 2], error = None\<rparr>])" for ops :: "int js_ops"
  proof -
  have t: "fst (runTestCases_run ops ''def is_even(n):'' ''python''
          [Obj [(''input'', Arr [Num 2]), (''expected'', Bool True)]] [])
      = Inr [\<lparr>passed = strict_eq ops (Bool (rem2_is_zero ops (Num 2))) (Bool True),
                 actual = Bool (rem2_is_zero ops (Num 2)), expected = Bool True,
                 input = Arr [Num 2], error = None\<rparr>]"
    by code_simp
  have b1: "runTestCases_settles ops ''def is_even(n):'' ''python''
          [Obj [(''input'', Arr [Num 2]), (''expected'', Bool True)]] [] 1000
          (Inr [\<lparr>passed = strict_eq ops (Bool (rem2_is_zero ops (Num 2))) (Bool True),
                 actual = Bool (rem2_is_zero ops (Num 2)), expected = Bool True,
                 input = Arr [Num 2], error = None\<rparr>])"
    using test_run[of 1000 ops "''def is_even(n):''" "''python''"
        "[Obj [(''input'', Arr [Num 2]), (''expected'', Bool True)]]" "[]",
        OF _ surjective_pairing] by (simp only: t)
  have b2: "runTestCases_settles ops ''def is_even(n):'' ''python''
          [Obj [(''input'', Arr [Num 2]), (''expected'', Bool True)]]
          [\<lparr>source = seqs [Str ''def'', ws1, Grp 1 wd1], global = False, lastIndex = 3\<rparr>] 1001
          (fst (runTestCases_run ops ''def is_even(n):'' ''python''
             [Obj [(''input'', Arr [Num 2]), (''expected'', Bool True)]]
             [\<lparr>source = seqs [Str ''def'', ws1, Grp 1 wd1], global = False, lastIndex = 3\<rparr>]))"
    by (rule test_run[OF _ surjective_pairing]) simp
  from runs_agree[THEN conjunct2, rule_format, OF b1 b2] b1 b2
  show ?thesis by simp
  qed
  from a1 a3 b show ?thesis by blast
qed

section \<open>Language detection\<close>

text \<open>
  C9. A text whose trimmed form matches no signature pattern of any language is
  \<^verbatim>\<open>plaintext\<close>; the empty text and the text of three spaces are such texts.
\<close>

theorem no_signature_gives_plaintext:
  assumes "\<not> any_test cpp_signatures (trim code)"
    and "\<not> any_test python_signatures (trim code)"
    and "\<not> any_test javascript_signatures (trim code)"
    and "\<not> any_test java_signatures (trim code)"
    and "\<not> any_test csharp_signatures (trim code)"
    and "\<not> any_test go_signatures (trim code)"
    and "\<not> any_test rust_signatures (trim code)"
  shows "detectLanguage code = ''plaintext''"
  using assms by (simp add: detectLanguage_def Let_def)

theorem no_signature_gives_plaintext_witness:
  "detectLanguage [] = ''plaintext'' \<and> detectLanguage ''   '' = ''plaintext''"
proof -
  have e: "\<not> any_test cpp_signatures (trim [])" "\<not> any_test python_signatures (trim [])"
    "\<not> any_test javascript_signatures (trim [])" "\<not> any_test java_signatures (trim [])"
    "\<not> any_test csharp_signatures (trim [])" "\<not> any_test go_signatures (trim [])"
    "\<not> any_test rust_signatures (trim [])"
    by code_simp+
  have s: "\<not> any_test cpp_signatures (trim ''   '')" "\<not> any_test python_signatures (trim ''   '')"
    "\<not> any_test javascript_signatures (trim ''   '')" "\<not> any_test java_signatures (trim ''   '')"
    "\<not> any_test csharp_signatures (trim ''   '')" "\<not> any_test go_signatures (trim ''   '')"
    "\<not> any_test rust_signatures (trim ''   '')"
    by code_simp+
  show ?thesis
    using no_signature_gives_plaintext[OF e] no_signature_gives_plaintext[OF s] by (rule conjI)
qed

section \<open>Python to JavaScript: the lines of the output\<close>

lemma indent_spaces: "set (indent n) \<subseteq> {CHR '' ''}"
  by (induction n) (auto simp add: indent_def)

lemma trim_subset: "set (trim s) \<subseteq> set s"
proof -
  have "set (trim s) = set (dropWhile is_space (rev (dropWhile is_space s)))"
    by (simp add: trim_def)
  also have "\<dots> \<subseteq> set (rev (dropWhile is_space s))" by (rule set_dropWhileD[THEN subsetI]) 
  also have "\<dots> \<subseteq> set s" using set_dropWhileD by fastforce
  finally show ?thesis .
qed

lemma trim_nonblank_iff: "trim s \<noteq> [] \<longleftrightarrow> (\<exists>c \<in> set s. \<not> is_space c)"
proof
  assume "trim s \<noteq> []"
  then obtain c where "c \<in> set (trim s)" by (cases "trim s") auto
  moreover have "\<exists>x \<in> set (trim s). \<not> is_space x"
  proof -
    have "dropWhile is_space (rev (dropWhile is_space s)) \<noteq> []"
      using \<open>trim s \<noteq> []\<close> by (simp add: trim_def)
    then have "\<not> is_space (hd (dropWhile is_space (rev (dropWhile is_space s))))"
      by (rule hd_dropWhile)
    moreover have "hd (dropWhile is_space (rev (dropWhile is_space s))) \<in> set (trim s)"
      using \<open>trim s \<noteq> []\<close> by (simp add: trim_def)
    ultimately show ?thesis by blast
  qed
  ultimately show "\<exists>c \<in> set s. \<not> is_space c" using trim_subset by blast
next
  assume "\<exists>c \<in> set s. \<not> is_space c"
  then have d: "dropWhile is_space s \<noteq> []" by (simp add: dropWhile_eq_Nil_conv)
  then have "\<not> is_space (hd (dropWhile is_space s))" by (rule hd_dropWhile)
  moreover have "hd (dropWhile is_space s) \<in> set (rev (dropWhile is_space s))" using d by simp
  ultimately have "dropWhile is_space (rev (dropWhile is_space s)) \<noteq> []"
    by (auto simp add: dropWhile_eq_Nil_conv simp del: set_rev)
  then show "trim s \<noteq> []" by (simp add: trim_def)
qed

lemma split_nl_append_newline:
  "newline \<notin> set l \<Longrightarrow> split_nl (l @ newline # r) = l # split_nl r"
proof (induction l)
  case Nil then show ?case by simp
next
  case (Cons c l)
  then show ?case by auto
qed

lemma split_join_nl:
  "ls \<noteq> [] \<Longrightarrow> \<forall>l \<in> set ls. newline \<notin> set l \<Longrightarrow> split_nl (join_nl ls) = ls"
proof (induction ls rule: join_nl.induct)
  case 1 then show ?case by simp
next
  case (2 l) then show ?case by (simp add: split_nl_no_newline)
next
  case (3 l m ls)
  then show ?case by (simp add: split_nl_append_newline)
qed

lemma opens_before_0: "opens_before ls 0 = 0"
  by (simp add: opens_before_def)

lemma opens_before_Suc:
  "opens_before (l # ls) (Suc i) = (if str_includes l ''{'' then 1 else 0) + opens_before ls i"
  by (simp add: opens_before_def)

lemma map_upt_shift: "map f [0..<Suc n] = f 0 # map (\<lambda>i. f (Suc i)) [0..<n]"
  by (simp only: map_upt_Suc)

lemma format_lines_result:
  "0 \<le> il \<Longrightarrow>
   format_lines ls (res, bc, il) =
     Inr (res @ map (\<lambda>i. indent (nat il + opens_before (filter (\<lambda>l. trim l \<noteq> []) ls) i)
                            @ trim (filter (\<lambda>l. trim l \<noteq> []) ls ! i))
                  [0..<length (filter (\<lambda>l. trim l \<noteq> []) ls)],
          bc + opens_before (filter (\<lambda>l. trim l \<noteq> []) ls) (length (filter (\<lambda>l. trim l \<noteq> []) ls)),
          il + int (opens_before (filter (\<lambda>l. trim l \<noteq> []) ls)
                      (length (filter (\<lambda>l. trim l \<noteq> []) ls))))"
proof (induction ls arbitrary: res bc il)
  case Nil
  then show ?case by (simp add: opens_before_0)
next
  case (Cons l ls)
  let ?K = "filter (\<lambda>l. trim l \<noteq> []) ls"
  show ?case
  proof (cases "trim l = []")
    case True
    then show ?thesis using Cons by simp
  next
    case False
    define b :: nat where "b = (if str_includes l ''{'' then 1 else 0)"
    have il': "0 \<le> il + int b" using Cons.prems by simp
    have step: "format_lines (l # ls) (res, bc, il)
        = format_lines ls (res @ [indent (nat il) @ trim l], bc + b, il + int b)"
      using False Cons.prems by (simp add: repeat_indent_def b_def Let_def)
    have nat_eq: "nat (il + int b) = nat il + b" using Cons.prems by simp
    have K: "filter (\<lambda>l. trim l \<noteq> []) (l # ls) = l # ?K" using False by simp
    have len: "opens_before (l # ?K) (length (l # ?K)) = b + opens_before ?K (length ?K)"
      by (simp add: opens_before_Suc b_def)
    have m: "map (\<lambda>i. indent (nat il + opens_before (l # ?K) i) @ trim ((l # ?K) ! i))
               [0..<length (l # ?K)]
          = (indent (nat il) @ trim l)
            # map (\<lambda>i. indent (nat (il + int b) + opens_before ?K i) @ trim (?K ! i))
                [0..<length ?K]"
      unfolding length_Cons map_upt_shift
      using Cons.prems
      by (auto simp add: opens_before_0 opens_before_Suc b_def nat_add_distrib simp del: upt_Suc)
    show ?thesis
      unfolding step Cons.IH[OF il'] K len m by simp
  qed
qed

lemma close_braces_result:
  "int k \<le> il \<Longrightarrow>
   close_braces k (res, il) =
     Inr (res @ map (\<lambda>j. indent j @ ''}'') (rev [nat il - k..<nat il]), il - int k)"
proof (induction k arbitrary: res il)
  case 0
  then show ?case by simp
next
  case (Suc k)
  have pos: "0 \<le> il - 1" and le: "int k \<le> il - 1" using Suc.prems by simp_all
  have n: "nat (il - 1) = nat il - 1" by simp
  obtain n where nat_il: "nat il = Suc n" and kn: "k \<le> n"
    using Suc.prems by (cases "nat il") auto
  have up: "[nat il - Suc k..<nat il] = [nat il - Suc k..<nat il - 1] @ [nat il - 1]"
    unfolding nat_il using kn by simp
  show ?case
    using pos by (simp add: repeat_indent_def Suc.IH[OF le] n up)
qed

lemma convertPythonToJavaScript_lines:
  "convertPythonToJavaScript code =
     Inr (join_nl (reindented (kept_lines code)
                   @ closing_braces (opens_before (kept_lines code) (length (kept_lines code)))))"
proof -
  let ?K = "kept_lines code"
  let ?n = "opens_before ?K (length ?K)"
  have f: "format_lines (split_nl (py_to_js_rewrite code)) ([], 0, 0)
             = Inr (reindented ?K, ?n, int ?n)"
    by (simp add: format_lines_result reindented_def kept_lines_def)
  have c: "close_braces ?n (reindented ?K, int ?n)
             = Inr (reindented ?K @ closing_braces ?n, 0)"
    by (simp add: close_braces_result closing_braces_def)
  show ?thesis by (simp add: convertPythonToJavaScript_def f c)
qed

lemma kept_line_props:
  assumes "l \<in> set (kept_lines code)"
  shows "trim l \<noteq> []" and "newline \<notin> set l"
  using assms split_nl_lines by (auto simp add: kept_lines_def)

lemma output_line_props:
  assumes "l \<in> set (reindented (kept_lines code) @ closing_braces n)"
  shows "l \<noteq> [] \<and> trim l \<noteq> [] \<and> newline \<notin> set l"
proof -
  have ind: "newline \<notin> set (indent d)" for d
    using indent_spaces[of d] by (auto simp add: newline_def)
  from assms consider
      (line) i where "i < length (kept_lines code)"
        "l = indent (opens_before (kept_lines code) i) @ trim (kept_lines code ! i)"
    | (brace) k where "l = indent k @ ''}''"
    by (auto simp add: reindented_def closing_braces_def)
  then show ?thesis
  proof cases
    case line
    let ?x = "kept_lines code ! i"
    have x: "trim ?x \<noteq> []" "newline \<notin> set ?x"
      using kept_line_props[of ?x code] line(1) by simp_all
    then obtain c where c: "c \<in> set (trim ?x)" "\<not> is_space c"
      using trim_nonblank_iff[of "trim ?x"] trim_nonblank_iff[of ?x] trim_subset[of ?x]
      by (metis hd_dropWhile hd_in_set rev_is_Nil_conv set_rev trim_def)
    have "trim l \<noteq> []" using c line(2) by (auto simp add: trim_nonblank_iff)
    moreover have "l \<noteq> []" using x(1) line(2) by simp
    moreover have "newline \<notin> set l" using x(2) trim_subset[of ?x] ind line(2) by auto
    ultimately show ?thesis by simp
  next
    case brace
    have "\<not> is_space CHR ''}''" by (simp add: is_space_def)
    then have "trim l \<noteq> []" using brace by (auto simp add: trim_nonblank_iff)
    moreover have "newline \<notin> set l" using brace ind by (simp add: newline_def)
    ultimately show ?thesis using brace by simp
  qed
qed

text \<open>
  C10. The output of \<^verbatim>\<open>convertPythonToJavaScript\<close> is, joined by line breaks, the lines of
  the rewritten text that are not blank, each trimmed and indented again, followed by one
  closing brace for each of them that contains an opening brace. No line of that list is
  empty or blank or holds a line break, so an output that is not empty has no blank line:
  the blank lines are gone. The conversion never throws.
\<close>

theorem py_to_js_drops_blank_lines:
  "convertPythonToJavaScript code =
     Inr (join_nl (reindented (kept_lines code)
                   @ closing_braces (opens_before (kept_lines code) (length (kept_lines code)))))
   \<and> (\<forall>l \<in> set (reindented (kept_lines code)
                   @ closing_braces (opens_before (kept_lines code) (length (kept_lines code)))).
         l \<noteq> [] \<and> trim l \<noteq> [] \<and> newline \<notin> set l)
   \<and> (\<forall>out. convertPythonToJavaScript code = Inr out \<longrightarrow> out \<noteq> [] \<longrightarrow>
         (\<forall>l \<in> set (split_nl out). trim l \<noteq> []))"
proof (intro conjI)
  let ?ls = "reindented (kept_lines code)
               @ closing_braces (opens_before (kept_lines code) (length (kept_lines code)))"
  show "convertPythonToJavaScript code = Inr (join_nl ?ls)"
    by (rule convertPythonToJavaScript_lines)
  show props: "\<forall>l \<in> set ?ls. l \<noteq> [] \<and> trim l \<noteq> [] \<and> newline \<notin> set l"
    using output_line_props by blast
  show "\<forall>out. convertPythonToJavaScript code = Inr out \<longrightarrow> out \<noteq> [] \<longrightarrow>
         (\<forall>l \<in> set (split_nl out). trim l \<noteq> [])"
  proof (intro allI impI ballI)
    fix out l
    assume out: "convertPythonToJavaScript code = Inr out" "out \<noteq> []"
      and l: "l \<in> set (split_nl out)"
    from out(1) have o: "out = join_nl ?ls" by (simp add: convertPythonToJavaScript_lines)
    with out(2) have "?ls \<noteq> []" by auto
    moreover have "\<forall>l \<in> set ?ls. newline \<notin> set l" using props by blast
    ultimately have "split_nl out = ?ls" unfolding o by (rule split_join_nl)
    with l show "trim l \<noteq> []" using props by metis
  qed
qed

theorem py_to_js_drops_blank_lines_witness:
  "convertPythonToJavaScript
     (''def f(x):'' @ [newline] @ [newline] @ ''    return x'' @ [newline] @ ''   '' @ [newline])
   = Inr (''function f(x) {'' @ [newline] @ ''  return x;'' @ [newline] @ ''}'')
   \<and> list_all (\<lambda>l. trim l \<noteq> [])
        (split_nl (''function f(x) {'' @ [newline] @ ''  return x;'' @ [newline] @ ''}''))"
proof -
  let ?code = "''def f(x):'' @ [newline] @ [newline] @ ''    return x'' @ [newline] @ ''   '' @ [newline]"
  have e: "join_nl (reindented (kept_lines ?code)
                   @ closing_braces (opens_before (kept_lines ?code) (length (kept_lines ?code))))
           = ''function f(x) {'' @ [newline] @ ''  return x;'' @ [newline] @ ''}''"
    by code_simp
  have ne: "''function f(x) {'' @ [newline] @ ''  return x;'' @ [newline] @ ''}'' \<noteq> []" by simp
  note t = py_to_js_drops_blank_lines[of ?code]
  from t have c: "convertPythonToJavaScript ?code
      = Inr (''function f(x) {'' @ [newline] @ ''  return x;'' @ [newline] @ ''}'')"
    unfolding e by (rule conjunct1)
  from t c ne have "\<forall>l \<in> set (split_nl (''function f(x) {'' @ [newline] @ ''  return x;'' @ [newline] @ ''}'')). trim l \<noteq> []"
    by blast
  with c show ?thesis by (simp only: list_all_iff) 
qed

end
